theory Spec2Isabelle
  imports Main "HOL-Library.Log_Nat"
begin

section \<open>JavaScript numbers\<close>

text \<open>
  A JavaScript number is an IEEE 754 binary64 value: a finite value (a rational), one of
  the two infinities, or NaN.  The two zeros are identified: the program only tests
  \<^verbatim>\<open>=== 0\<close>, which holds for both, and never divides by a zero.
\<close>

datatype jsnum = Fin rat | PInf | NInf | NaN

text \<open>\<open>ilog2 x\<close> is the exponent \<open>e\<close> with \<open>2^e \<le> |x| < 2^(e+1)\<close>, for \<open>x \<noteq> 0\<close>.\<close>

definition ilog2 :: "rat \<Rightarrow> int" where
  "ilog2 x = (if 1 \<le> \<bar>x\<bar> then int (floorlog 2 (nat \<lfloor>\<bar>x\<bar>\<rfloor>)) - 1
              else - int (floorlog 2 (nat (\<lceil>1 / \<bar>x\<bar>\<rceil> - 1))))"

definition round_half_even :: "rat \<Rightarrow> int" where
  "round_half_even q =
     (let f = \<lfloor>q\<rfloor>; d = q - of_int f
      in if d < 1 / 2 then f else if 1 / 2 < d then f + 1 else if even f then f else f + 1)"

text \<open>
  Rounding of an exact result to binary64, to nearest with ties to even: 53 significant
  bits, exponents from \<open>-1022\<close> (below it the spacing stays \<open>2^-1074\<close>) to \<open>1023\<close>,
  and overflow to an infinity.
\<close>

definition fl :: "rat \<Rightarrow> jsnum" where
  "fl x = (if x = 0 then Fin 0 else
     let e = max (ilog2 x) (- 1022);
         u = 2 powi (e - 52);
         r = of_int (round_half_even (x / u)) * u
     in if 2 powi 1024 \<le> r then PInf else if r \<le> - (2 powi 1024) then NInf else Fin r)"

fun js_neg :: "jsnum \<Rightarrow> jsnum" where
  "js_neg (Fin a) = Fin (- a)"
| "js_neg PInf = NInf"
| "js_neg NInf = PInf"
| "js_neg NaN = NaN"

fun js_add :: "jsnum \<Rightarrow> jsnum \<Rightarrow> jsnum" where
  "js_add NaN _ = NaN"
| "js_add _ NaN = NaN"
| "js_add (Fin a) (Fin b) = fl (a + b)"
| "js_add PInf NInf = NaN"
| "js_add NInf PInf = NaN"
| "js_add PInf _ = PInf"
| "js_add NInf _ = NInf"
| "js_add _ PInf = PInf"
| "js_add _ NInf = NInf"

definition js_sub :: "jsnum \<Rightarrow> jsnum \<Rightarrow> jsnum" where
  "js_sub a b = js_add a (js_neg b)"

text \<open>The sign of a number that is not NaN, as \<open>-1\<close>, \<open>0\<close> or \<open>1\<close>.\<close>

fun js_sgn :: "jsnum \<Rightarrow> rat" where
  "js_sgn (Fin a) = sgn a"
| "js_sgn PInf = 1"
| "js_sgn NInf = - 1"
| "js_sgn NaN = 0"

definition signed_inf :: "rat \<Rightarrow> jsnum" where
  "signed_inf s = (if s = 0 then NaN else if 0 < s then PInf else NInf)"

fun js_mul :: "jsnum \<Rightarrow> jsnum \<Rightarrow> jsnum" where
  "js_mul NaN _ = NaN"
| "js_mul _ NaN = NaN"
| "js_mul (Fin a) (Fin b) = fl (a * b)"
| "js_mul a b = signed_inf (js_sgn a * js_sgn b)"

text \<open>
  Division.  A finite value divided by zero gives an infinity (NaN for \<open>0 / 0\<close>); with the
  two zeros identified the divisor counts as \<open>+0\<close>.  The program tests its divisor
  against \<open>0\<close> before every division.
\<close>

fun js_div :: "jsnum \<Rightarrow> jsnum \<Rightarrow> jsnum" where
  "js_div NaN _ = NaN"
| "js_div _ NaN = NaN"
| "js_div (Fin a) (Fin b) = (if b = 0 then signed_inf (sgn a) else fl (a / b))"
| "js_div (Fin a) _ = Fin 0"
| "js_div a (Fin b) = signed_inf (js_sgn a * (if b < 0 then - 1 else 1))"
| "js_div _ _ = NaN"

text \<open>\<^verbatim>\<open>Number.isFinite\<close>, \<^verbatim>\<open>Math.min\<close> and \<^verbatim>\<open>Math.max\<close> of two numbers.\<close>

fun isFinite :: "jsnum \<Rightarrow> bool" where
  "isFinite (Fin _) = True"
| "isFinite _ = False"

fun js_le :: "jsnum \<Rightarrow> jsnum \<Rightarrow> bool" where
  "js_le NaN _ = False"
| "js_le _ NaN = False"
| "js_le (Fin a) (Fin b) = (a \<le> b)"
| "js_le NInf _ = True"
| "js_le _ PInf = True"
| "js_le _ _ = False"

definition js_min :: "jsnum \<Rightarrow> jsnum \<Rightarrow> jsnum" where
  "js_min a b = (if a = NaN \<or> b = NaN then NaN else if js_le a b then a else b)"

definition js_max :: "jsnum \<Rightarrow> jsnum \<Rightarrow> jsnum" where
  "js_max a b = (if a = NaN \<or> b = NaN then NaN else if js_le a b then b else a)"

section \<open>JSON values\<close>

text \<open>
  What \<^verbatim>\<open>r.json()\<close> yields.  An object is the list of its own properties; a number can be
  an infinity (\<^verbatim>\<open>JSON.parse("1e999")\<close>), never NaN.
\<close>

datatype json =
    JNull
  | JBool bool
  | JNum jsnum
  | JStr string
  | JArr "json list"
  | JObj "(string \<times> json) list"

text \<open>Truthiness, as tested by \<^verbatim>\<open>&&\<close>, \<^verbatim>\<open>||\<close>, \<^verbatim>\<open>!\<close> and \<^verbatim>\<open>?:\<close>.\<close>

fun truthy :: "json \<Rightarrow> bool" where
  "truthy JNull = False"
| "truthy (JBool b) = b"
| "truthy (JNum n) = (n \<noteq> Fin 0 \<and> n \<noteq> NaN)"
| "truthy (JStr s) = (s \<noteq> [])"
| "truthy (JArr _) = True"
| "truthy (JObj _) = True"

text \<open>
  Reading the property \<open>k\<close> of a value other than \<^verbatim>\<open>null\<close>; \<open>None\<close> is \<^verbatim>\<open>undefined\<close>.  The
  properties read by the program (\<^verbatim>\<open>close\<close>, \<^verbatim>\<open>intervals\<close>, \<^verbatim>\<open>stock_prices\<close>, \<^verbatim>\<open>next_page\<close>)
  exist on objects only.
\<close>

fun field :: "json \<Rightarrow> string \<Rightarrow> json option" where
  "field (JObj kvs) k = map_of kvs k"
| "field _ k = None"

text \<open>\<open>Some c\<close> when \<^verbatim>\<open>typeof x.close === 'number'\<close> with \<^verbatim>\<open>x.close\<close> being \<open>c\<close>.\<close>

definition close_number :: "json \<Rightarrow> jsnum option" where
  "close_number x = (case field x ''close'' of Some (JNum c) \<Rightarrow> Some c | _ \<Rightarrow> None)"

section \<open>The upstream services\<close>

datatype js_error = JsError (message: string)

datatype 'b response = Response (status: nat) (payload: 'b)

text \<open>\<^verbatim>\<open>resp.ok\<close>: the status is in the range 200 to 299.\<close>

definition ok :: "'b response \<Rightarrow> bool" where
  "ok r = (200 \<le> status r \<and> status r \<le> 299)"

text \<open>
  The result of \<^verbatim>\<open>await fetch(url)\<close>: \<open>Inl\<close> when the promise rejects.  The payload of a
  market-data response is the result of \<^verbatim>\<open>await r.json()\<close>, which rejects on a body that
  is not JSON; the payload of the listing page is the result of \<^verbatim>\<open>await resp.text()\<close>.
\<close>

type_synonym 'b fetched = "js_error + 'b response"
type_synonym api_body = "js_error + json"
type_synonym page_body = "js_error + string"

text \<open>
  The upstream within one request: the listing page, the 15-minute intervals of each
  ticker, and the end-of-day prices of each ticker for each page cursor (\<open>JNull\<close> for the
  first page).
\<close>

record upstream =
  listing :: "page_body fetched"
  intervals_of :: "string \<Rightarrow> api_body fetched"
  prices_of :: "string \<Rightarrow> json \<Rightarrow> api_body fetched"

section \<open>Intraday bars\<close>

text \<open>The object \<^verbatim>\<open>{ price, intervals }\<close> returned by \<^verbatim>\<open>latest15mClose\<close>.\<close>

record latest15m =
  latest_price :: "jsnum option"
  latest_intervals :: "json list"

definition latest15mClose :: "api_body fetched \<Rightarrow> js_error + latest15m" where
  "latest15mClose fetched =
     (case fetched of
        Inl e \<Rightarrow> Inl e
      | Inr r \<Rightarrow>
          if \<not> ok r then Inr \<lparr>latest_price = None, latest_intervals = []\<rparr>
          else (case payload r of
                  Inl e \<Rightarrow> Inl e
                | Inr j \<Rightarrow>
                    if j = JNull
                    then Inl (JsError ''Cannot read properties of null (reading 'intervals')'')
                    else
                      let arr = (case field j ''intervals'' of Some (JArr xs) \<Rightarrow> xs | _ \<Rightarrow> []);
                          last_bar = (if arr = [] then JNull else arr ! (length arr - 1));
                          price = (if truthy last_bar then close_number last_bar else None)
                      in Inr \<lparr>latest_price = price, latest_intervals = arr\<rparr>))"

text \<open>The object \<^verbatim>\<open>{ base, changePct }\<close>; \<open>None\<close> is \<^verbatim>\<open>null\<close>.\<close>

record change =
  base :: "jsnum option"
  changePct :: "jsnum option"

definition hourlyChangeFromIntervals :: "json list \<Rightarrow> change" where
  "hourlyChangeFromIntervals arr =
     (if length arr < 6 then \<lparr>base = None, changePct = None\<rparr>
      else
        let last_bar = arr ! (length arr - 1);
            base_bar = arr ! (length arr - 1 - 5)
        in if \<not> (truthy last_bar \<and> truthy base_bar) then \<lparr>base = None, changePct = None\<rparr>
           else (case (close_number last_bar, close_number base_bar) of
                   (Some l, Some b) \<Rightarrow>
                     if b = Fin 0 then \<lparr>base = None, changePct = None\<rparr>
                     else \<lparr>base = Some b,
                           changePct = Some (js_mul (js_div (js_sub l b) b) (Fin 100))\<rparr>
                 | _ \<Rightarrow> \<lparr>base = None, changePct = None\<rparr>))"

section \<open>The ticker list\<close>

text \<open>The character class \<^verbatim>\<open>[A-Za-z\.]\<close>.\<close>

definition is_symbol_char :: "char \<Rightarrow> bool" where
  "is_symbol_char c \<longleftrightarrow> c \<in> set ''ABCDEFGHIJKLMNOPQRSTUVWXYZabcdefghijklmnopqrstuvwxyz.''"

text \<open>
  A match of \<^verbatim>\<open>/\/symbol\/([A-Za-z\.]+)"/\<close> that starts at the head of the text: the
  captured group.  The group is the longest run of class characters (a shorter one cannot
  be followed by the quote).
\<close>

definition match_symbol :: "string \<Rightarrow> string option" where
  "match_symbol s =
     (if take 8 s = ''/symbol/'' then
        let t = takeWhile is_symbol_char (drop 8 s);
            rest = dropWhile is_symbol_char (drop 8 s)
        in if t \<noteq> [] \<and> rest \<noteq> [] \<and> hd rest = CHR 0x22 then Some t else None
      else None)"

text \<open>
  The groups of the successive \<^verbatim>\<open>rx.exec(html)\<close> calls of a global regular expression:
  the search resumes after the end of the previous match (\<^verbatim>\<open>lastIndex\<close>); \<open>k\<close> counts
  the characters of the previous match still to be passed.
\<close>

fun matches_from :: "nat \<Rightarrow> string \<Rightarrow> string list" where
  "matches_from k [] = []"
| "matches_from k (c # cs) =
     (if 0 < k then matches_from (k - 1) cs
      else (case match_symbol (c # cs) of
              Some t \<Rightarrow> t # matches_from (8 + length t) cs
            | None \<Rightarrow> matches_from 0 cs))"

text \<open>
  The loop \<^verbatim>\<open>while ((m = rx.exec(html)) && out.length < limit)\<close> over the matches, with
  \<^verbatim>\<open>seen\<close> holding the elements of \<^verbatim>\<open>out\<close>.
\<close>

fun collect :: "int \<Rightarrow> string list \<Rightarrow> string list \<Rightarrow> string list" where
  "collect limit [] out = out"
| "collect limit (t # ms) out =
     (if int (length out) < limit
      then collect limit ms (if t \<in> set out then out else out @ [t])
      else out)"

text \<open>\<^verbatim>\<open>xs.slice(0, n)\<close> for an integer \<open>n\<close>; a negative \<open>n\<close> counts from the end.\<close>

definition slice0 :: "'a list \<Rightarrow> int \<Rightarrow> 'a list" where
  "slice0 xs n = (if 0 \<le> n then take (nat n) xs else take (length xs - nat (- n)) xs)"

text \<open>The decimal digits of a natural number, as in a template literal.\<close>

fun show_nat :: "nat \<Rightarrow> string" where
  "show_nat n =
     (if n < 10 then [''0123456789'' ! n]
      else show_nat (n div 10) @ [''0123456789'' ! (n mod 10)])"

declare show_nat.simps [simp del]

definition getTopTickers :: "page_body fetched \<Rightarrow> int \<Rightarrow> js_error + string list" where
  "getTopTickers fetched limit =
     (case fetched of
        Inl e \<Rightarrow> Inl e
      | Inr resp \<Rightarrow>
          if \<not> ok resp then Inl (JsError (''SlickCharts HTTP '' @ show_nat (status resp)))
          else (case payload resp of
                  Inl e \<Rightarrow> Inl e
                | Inr html \<Rightarrow>
                    let out = collect limit (matches_from 0 html) []
                    in if out = [] then Inl (JsError ''No S&P500 tickers scraped'')
                       else Inr (slice0 out limit)))"

section \<open>End-of-day history\<close>

text \<open>
  The value of \<^verbatim>\<open>sessionsMap[range] ?? 1\<close>: a number of sessions, or, for a range that
  names a property every object inherits (such as \<^verbatim>\<open>constructor\<close>), that inherited
  function or object, which is neither \<^verbatim>\<open>null\<close> nor \<^verbatim>\<open>undefined\<close>.
\<close>

datatype lookback = Sessions nat | Inherited

text \<open>
  \<^verbatim>\<open>all.length < need + 1\<close>.  With an object for \<^verbatim>\<open>need\<close> the sum is a string that is not
  numeric, the comparison is one with NaN, and it is false.
\<close>

fun more_needed :: "nat \<Rightarrow> lookback \<Rightarrow> bool" where
  "more_needed len (Sessions need) = (len < need + 1)"
| "more_needed len Inherited = False"

text \<open>\<^verbatim>\<open>Array.isArray(j.stock_prices) ? j.stock_prices : []\<close> and \<^verbatim>\<open>j.next_page || null\<close>.\<close>

definition page_rows :: "json \<Rightarrow> json list" where
  "page_rows j = (case field j ''stock_prices'' of Some (JArr xs) \<Rightarrow> xs | _ \<Rightarrow> [])"

definition page_next :: "json \<Rightarrow> json" where
  "page_next j = (case field j ''next_page'' of
                    Some v \<Rightarrow> if truthy v then v else JNull
                  | None \<Rightarrow> JNull)"

text \<open>
  The \<^verbatim>\<open>do ... while\<close> loop of \<^verbatim>\<open>fetchEodHistory\<close>, entered with the rows collected so
  far and the cursor of the page to request.  \<open>None\<close>: the loop never ends.
\<close>

partial_function (option) fetchEodHistory_loop ::
  "(json \<Rightarrow> api_body fetched) \<Rightarrow> lookback \<Rightarrow> json list \<Rightarrow> json \<Rightarrow> (js_error + json list) option"
where
  "fetchEodHistory_loop get need all next =
     (case get next of
        Inl e \<Rightarrow> Some (Inl e)
      | Inr r \<Rightarrow>
          if \<not> ok r then Some (Inr all)
          else (case payload r of
                  Inl e \<Rightarrow> Some (Inl e)
                | Inr j \<Rightarrow>
                    if j = JNull
                    then Some (Inl (JsError ''Cannot read properties of null (reading 'stock_prices')''))
                    else
                      let rows = page_rows j;
                          all' = all @ rows;
                          next' = page_next j
                      in if more_needed (length all') need \<and> truthy next'
                         then fetchEodHistory_loop get need all' next'
                         else Some (Inr all')))"

definition fetchEodHistory ::
  "(json \<Rightarrow> api_body fetched) \<Rightarrow> lookback \<Rightarrow> (js_error + json list) option" where
  "fetchEodHistory get need = fetchEodHistory_loop get need [] JNull"

text \<open>The object \<^verbatim>\<open>{ base, now, changePct }\<close>.\<close>

record eod_change = change +
  now :: "jsnum option"

text \<open>
  \<^verbatim>\<open>hist.length > sessionsBack ? hist[sessionsBack] : hist[hist.length - 1]\<close>, for a
  history that is not empty.  With an object for \<^verbatim>\<open>sessionsBack\<close> the comparison is false.
\<close>

fun baseRow :: "json list \<Rightarrow> lookback \<Rightarrow> json" where
  "baseRow hist (Sessions sessionsBack) =
     (if length hist > sessionsBack then hist ! sessionsBack else hist ! (length hist - 1))"
| "baseRow hist Inherited = hist ! (length hist - 1)"

text \<open>The part of \<^verbatim>\<open>eodChangeVsLatest15m\<close> after its two awaits.\<close>

definition eodChange :: "json list \<Rightarrow> jsnum option \<Rightarrow> lookback \<Rightarrow> eod_change" where
  "eodChange hist now15 sessionsBack =
     (case now15 of
        None \<Rightarrow> \<lparr>base = None, changePct = None, now = None\<rparr>
      | Some n \<Rightarrow>
          if hist = [] then \<lparr>base = None, changePct = None, now = Some n\<rparr>
          else
            let row = baseRow hist sessionsBack;
                b = (if truthy row then close_number row else None)
            in (case b of
                  None \<Rightarrow> \<lparr>base = None, changePct = None, now = Some n\<rparr>
                | Some b \<Rightarrow>
                    if b = Fin 0 then \<lparr>base = None, changePct = None, now = Some n\<rparr>
                    else \<lparr>base = Some b,
                          changePct = Some (js_mul (js_div (js_sub n b) b) (Fin 100)),
                          now = Some n\<rparr>))"

definition eodChangeVsLatest15m ::
  "upstream \<Rightarrow> string \<Rightarrow> lookback \<Rightarrow> (js_error + eod_change) option" where
  "eodChangeVsLatest15m up t sessionsBack =
     (case fetchEodHistory (prices_of up t) sessionsBack of
        None \<Rightarrow> None
      | Some (Inl e) \<Rightarrow> Some (Inl e)
      | Some (Inr hist) \<Rightarrow>
          (case latest15mClose (intervals_of up t) of
             Inl e \<Rightarrow> Some (Inl e)
           | Inr latest \<Rightarrow> Some (Inr (eodChange hist (latest_price latest) sessionsBack))))"

section \<open>The request handler\<close>

text \<open>
  \<^verbatim>\<open>s.toLowerCase()\<close> on the UTF-8 bytes of \<open>s\<close>.  The letters A to Z and the Kelvin sign
  (U+212A, the bytes E2 84 AA) are the only characters whose lower case is an ASCII
  letter; the lower case of any other character keeps a byte outside ASCII, so the result
  is compared with the ASCII range names as in the program.
\<close>

definition lower_char :: "char \<Rightarrow> char" where
  "lower_char c =
     (case map_of (zip ''ABCDEFGHIJKLMNOPQRSTUVWXYZ'' ''abcdefghijklmnopqrstuvwxyz'') c of
        Some d \<Rightarrow> d
      | None \<Rightarrow> c)"

fun toLowerCase :: "string \<Rightarrow> string" where
  "toLowerCase (a # b # c # cs) =
     (if a = CHR 0xE2 \<and> b = CHR 0x84 \<and> c = CHR 0xAA then CHR ''k'' # toLowerCase cs
      else lower_char a # toLowerCase (b # c # cs))"
| "toLowerCase (a # cs) = lower_char a # toLowerCase cs"
| "toLowerCase [] = []"

text \<open>
  The white space that \<^verbatim>\<open>parseInt\<close> skips, in UTF-8: the number of bytes of a white
  space character at the head of the text, 0 when there is none.  These are the
  characters U+0009 to U+000D and U+0020, U+00A0 (C2 A0), U+1680 (E1 9A 80), U+2000 to
  U+200A (E2 80 80 to E2 80 8A), U+2028, U+2029 and U+202F (E2 80 A8, A9 and AF), U+205F
  (E2 81 9F), U+3000 (E3 80 80) and U+FEFF (EF BB BF).
\<close>

definition space_length :: "string \<Rightarrow> nat" where
  "space_length s =
     (if take 1 s \<in> set [[CHR 0x09], [CHR 0x0A], [CHR 0x0B], [CHR 0x0C], [CHR 0x0D], [CHR 0x20]]
      then 1
      else if take 2 s = [CHR 0xC2, CHR 0xA0] then 2
      else if take 3 s \<in> set [[CHR 0xE1, CHR 0x9A, CHR 0x80],
                [CHR 0xE2, CHR 0x80, CHR 0x80], [CHR 0xE2, CHR 0x80, CHR 0x81],
                [CHR 0xE2, CHR 0x80, CHR 0x82], [CHR 0xE2, CHR 0x80, CHR 0x83],
                [CHR 0xE2, CHR 0x80, CHR 0x84], [CHR 0xE2, CHR 0x80, CHR 0x85],
                [CHR 0xE2, CHR 0x80, CHR 0x86], [CHR 0xE2, CHR 0x80, CHR 0x87],
                [CHR 0xE2, CHR 0x80, CHR 0x88], [CHR 0xE2, CHR 0x80, CHR 0x89],
                [CHR 0xE2, CHR 0x80, CHR 0x8A], [CHR 0xE2, CHR 0x80, CHR 0xA8],
                [CHR 0xE2, CHR 0x80, CHR 0xA9], [CHR 0xE2, CHR 0x80, CHR 0xAF],
                [CHR 0xE2, CHR 0x81, CHR 0x9F], [CHR 0xE3, CHR 0x80, CHR 0x80],
                [CHR 0xEF, CHR 0xBB, CHR 0xBF]]
      then 3
      else 0)"

text \<open>
  The text after its leading white space; \<open>k\<close> counts the bytes of the current white
  space character still to be passed.
\<close>

fun skip_space :: "nat \<Rightarrow> string \<Rightarrow> string" where
  "skip_space k [] = []"
| "skip_space k (c # cs) =
     (if 0 < k then skip_space (k - 1) cs
      else if space_length (c # cs) = 0 then c # cs
      else skip_space (space_length (c # cs) - 1) cs)"

text \<open>
  \<^verbatim>\<open>parseInt(v, 10)\<close> of a parameter that is absent (\<open>None\<close>, read as the text
  \<^verbatim>\<open>undefined\<close>) or a string: leading white space, a sign, then the longest run of
  decimal digits, converted to the nearest number; NaN without a digit.
\<close>

definition is_digit :: "char \<Rightarrow> bool" where
  "is_digit c \<longleftrightarrow> c \<in> set ''0123456789''"

definition digit_value :: "char \<Rightarrow> nat" where
  "digit_value c = (case map_of (zip ''0123456789'' [0, 1, 2, 3, 4, 5, 6, 7, 8, 9]) c of
                      Some d \<Rightarrow> d | None \<Rightarrow> 0)"

definition digits_value :: "string \<Rightarrow> nat" where
  "digits_value ds = foldl (\<lambda>n c. 10 * n + digit_value c) 0 ds"

definition parseInt :: "string option \<Rightarrow> jsnum" where
  "parseInt v =
     (case v of
        None \<Rightarrow> NaN
      | Some s \<Rightarrow>
          let s1 = skip_space 0 s;
              negative = (s1 \<noteq> [] \<and> hd s1 = CHR ''-'');
              s2 = (if s1 \<noteq> [] \<and> (hd s1 = CHR ''-'' \<or> hd s1 = CHR ''+'') then tl s1 else s1);
              ds = takeWhile is_digit s2
          in if ds = [] then NaN
             else fl (of_int (if negative then - int (digits_value ds) else int (digits_value ds))))"

definition LIMIT :: "string option \<Rightarrow> jsnum" where
  "LIMIT limit =
     (let limitParam = parseInt limit
      in js_max (Fin 1) (js_min (Fin 100) (if isFinite limitParam then limitParam else Fin 10)))"

definition CONCURRENCY :: "string option \<Rightarrow> jsnum" where
  "CONCURRENCY limit = js_min (LIMIT limit) (Fin 10)"

text \<open>
  The integer that a number is.  \<open>LIMIT\<close> and \<open>CONCURRENCY\<close> are integers from 1 to 100,
  so that the lengths and indices computed from them are exact.
\<close>

fun to_int :: "jsnum \<Rightarrow> int" where
  "to_int (Fin q) = (if 0 \<le> q then \<lfloor>q\<rfloor> else \<lceil>q\<rceil>)"
| "to_int _ = 0"

text \<open>
  \<^verbatim>\<open>sessionsMap[range]\<close> for the object \<^verbatim>\<open>{ day: 1, week: 5, month: 21, year: 252 }\<close>;
  \<open>None\<close> is \<^verbatim>\<open>undefined\<close>.  A property lookup also finds the properties that every
  object inherits; after \<^verbatim>\<open>toLowerCase\<close> a range can name two of them, \<^verbatim>\<open>constructor\<close>
  and \<^verbatim>\<open>__proto__\<close>.
\<close>

definition sessionsMap :: "string \<Rightarrow> lookback option" where
  "sessionsMap range' =
     (if range' = ''day'' then Some (Sessions 1)
      else if range' = ''week'' then Some (Sessions 5)
      else if range' = ''month'' then Some (Sessions 21)
      else if range' = ''year'' then Some (Sessions 252)
      else if range' \<in> set [''constructor'', ''__proto__'', ''hasOwnProperty'',
                ''isPrototypeOf'', ''propertyIsEnumerable'', ''toString'', ''valueOf'',
                ''toLocaleString'', ''__defineGetter__'', ''__defineSetter__'',
                ''__lookupGetter__'', ''__lookupSetter__'']
      then Some Inherited
      else None)"

record metric =
  ticker :: string
  price :: "jsnum option"
  changePercent :: "jsnum option"

text \<open>The worker of one request, for the lower-cased range; \<open>None\<close>: it never settles.\<close>

definition worker :: "upstream \<Rightarrow> string \<Rightarrow> string \<Rightarrow> metric option" where
  "worker up range' t =
     (if range' = ''hour'' then
        (case latest15mClose (intervals_of up t) of
           Inl e \<Rightarrow> Some \<lparr>ticker = t, price = None, changePercent = None\<rparr>
         | Inr latest \<Rightarrow>
             let hc = hourlyChangeFromIntervals (latest_intervals latest)
             in Some \<lparr>ticker = t, price = latest_price latest, changePercent = changePct hc\<rparr>)
      else
        let sb = (case sessionsMap range' of Some v \<Rightarrow> v | None \<Rightarrow> Sessions 1)
        in (case eodChangeVsLatest15m up t sb of
              None \<Rightarrow> None
            | Some (Inl e) \<Rightarrow> Some \<lparr>ticker = t, price = None, changePercent = None\<rparr>
            | Some (Inr out) \<Rightarrow>
                Some \<lparr>ticker = t, price = now out, changePercent = changePct out\<rparr>))"

text \<open>
  \<^verbatim>\<open>await Promise.all(chunk.map(worker))\<close>: the results in the order of the chunk, once
  every worker has settled (a worker never rejects).
\<close>

definition promise_all :: "(string \<Rightarrow> metric option) \<Rightarrow> string list \<Rightarrow> metric list option" where
  "promise_all w chunk = those (map w chunk)"

text \<open>The \<^verbatim>\<open>for\<close> loop over the chunks, entered with the index \<open>i\<close> and the array \<open>out\<close>.\<close>

partial_function (option) batch_loop ::
  "nat \<Rightarrow> (string \<Rightarrow> metric option) \<Rightarrow> string list \<Rightarrow> nat \<Rightarrow> metric list \<Rightarrow> metric list option"
where
  "batch_loop concurrency w tickers i out =
     (if i < length tickers then
        (case promise_all w (take concurrency (drop i tickers)) of
           None \<Rightarrow> None
         | Some batch \<Rightarrow> batch_loop concurrency w tickers (i + concurrency) (out @ batch))
      else Some out)"

text \<open>
  A request whose two query parameters are absent or strings: the credential of the
  environment and the two parameters.  The reply: the array given to \<^verbatim>\<open>res.json\<close> with
  status 200, or status 500 with \<^verbatim>\<open>{ error }\<close>.  Requests with parameters of another
  kind are the subject of \<open>api_sp500\<close> below.
\<close>

record request =
  apiKey :: "string option"
  range_param :: "string option"
  limit_param :: "string option"

datatype reply = Json200 "metric list" | Error500 string

text \<open>\<^verbatim>\<open>(req.query.range || 'day').toLowerCase()\<close>\<close>

definition range_of :: "string option \<Rightarrow> string" where
  "range_of r = toLowerCase (case r of None \<Rightarrow> ''day'' | Some v \<Rightarrow> if v = [] then ''day'' else v)"

definition handler :: "request \<Rightarrow> upstream \<Rightarrow> reply option" where
  "handler req up =
     (if apiKey req = None \<or> apiKey req = Some [] then Some (Error500 ''INTRINIO_API_KEY missing'')
      else
        let range' = range_of (range_param req);
            lim = to_int (LIMIT (limit_param req));
            conc = to_int (CONCURRENCY (limit_param req))
        in (case getTopTickers (listing up) lim of
              Inl e \<Rightarrow> Some (Error500 (if message e = [] then ''Failed to build S&P500 data''
                                       else message e))
            | Inr tickers \<Rightarrow>
                (case batch_loop (nat conc) (worker up range') tickers 0 [] of
                   None \<Rightarrow> None
                 | Some out \<Rightarrow> Some (Json200 (slice0 (filter (\<lambda>x. ticker x \<noteq> []) out) lim)))))"

text \<open>
  The value of a query parameter as the query parser of Express delivers it
  (\<^verbatim>\<open>req.query.limit\<close>): a string, an array for a repeated parameter
  (\<^verbatim>\<open>?limit=5&limit=6\<close>), or an object for a bracketed one (\<^verbatim>\<open>?limit[k]=5\<close>).  An object
  is the list of its own properties, which can carry the name of an inherited one
  (\<^verbatim>\<open>?limit[toString]=5\<close>).
\<close>

datatype query = QStr string | QArr "query list" | QObj "(string \<times> query) list"

text \<open>
  The conversion to a string that \<^verbatim>\<open>parseInt\<close> applies to its argument.  An array joins
  the strings of its elements with commas.  An object is \<^verbatim>\<open>[object Object]\<close>, unless it
  has an own property \<^verbatim>\<open>toString\<close>: that property is not a function, the inherited
  \<^verbatim>\<open>valueOf\<close> returns the object itself, and the conversion throws a TypeError.
\<close>

fun to_string :: "query \<Rightarrow> js_error + string"
  and join_strings :: "query list \<Rightarrow> js_error + string" where
  "to_string (QStr s) = Inr s"
| "to_string (QArr xs) = join_strings xs"
| "to_string (QObj kvs) =
     (if map_of kvs ''toString'' = None then Inr ''[object Object]''
      else Inl (JsError ''Cannot convert object to primitive value''))"
| "join_strings [] = Inr []"
| "join_strings (x # xs) =
     (case to_string x of
        Inl e \<Rightarrow> Inl e
      | Inr s \<Rightarrow>
          if xs = [] then Inr s
          else (case join_strings xs of Inl e \<Rightarrow> Inl e | Inr r \<Rightarrow> Inr (s @ '','' @ r)))"

text \<open>
  The receiver of \<^verbatim>\<open>.toLowerCase()\<close> in \<^verbatim>\<open>(req.query.range || 'day').toLowerCase()\<close>: an
  array and an object are truthy and have no such method, so the call throws a TypeError
  (whose message is shortened here).
\<close>

definition range_text :: "query option \<Rightarrow> js_error + string option" where
  "range_text q =
     (case q of
        None \<Rightarrow> Inr None
      | Some (QStr s) \<Rightarrow> Inr (Some s)
      | Some _ \<Rightarrow> Inl (JsError ''toLowerCase is not a function''))"

text \<open>The argument of \<^verbatim>\<open>parseInt(req.query.limit, 10)\<close> as a string.\<close>

definition limit_text :: "query option \<Rightarrow> js_error + string option" where
  "limit_text q =
     (case q of
        None \<Rightarrow> Inr None
      | Some v \<Rightarrow> (case to_string v of Inl e \<Rightarrow> Inl e | Inr s \<Rightarrow> Inr (Some s)))"

text \<open>
  The request as Express hands it to the route, and what becomes of it: a reply, or an
  error thrown before the \<^verbatim>\<open>try\<close> statement, with which the promise of the route
  rejects and the route sends no reply.
\<close>

record express_request =
  env_key :: "string option"
  query_range :: "query option"
  query_limit :: "query option"

datatype outcome = Replies reply | Rejects js_error

text \<open>
  The route \<^verbatim>\<open>/api/sp500\<close> for any request: the credential is tested, the range is
  lowered and the limit is parsed, in this order and before the \<^verbatim>\<open>try\<close> statement; a
  request whose two parameters are absent or strings is handled as above.
\<close>

definition api_sp500 :: "express_request \<Rightarrow> upstream \<Rightarrow> outcome option" where
  "api_sp500 rq up =
     (if env_key rq = None \<or> env_key rq = Some []
      then Some (Replies (Error500 ''INTRINIO_API_KEY missing''))
      else (case range_text (query_range rq) of
              Inl e \<Rightarrow> Some (Rejects e)
            | Inr r \<Rightarrow>
                (case limit_text (query_limit rq) of
                   Inl e \<Rightarrow> Some (Rejects e)
                 | Inr l \<Rightarrow>
                     map_option Replies
                       (handler \<lparr>apiKey = env_key rq, range_param = r, limit_param = l\<rparr> up))))"



section \<open>Percent change as specified\<close>

text \<open>
  The formula of the specification: \<open>((now - base) / base) * 100\<close> when both operands are
  numbers and the base is not zero, otherwise \<^verbatim>\<open>null\<close>.
\<close>

definition percent_change :: "jsnum option \<Rightarrow> jsnum option \<Rightarrow> jsnum option" where
  "percent_change now_v base_v =
     (case (now_v, base_v) of
        (Some n, Some b) \<Rightarrow>
          if b = Fin 0 then None else Some (js_mul (js_div (js_sub n b) b) (Fin 100))
      | _ \<Rightarrow> None)"

text \<open>
  The operands of the intraday path: the close of the last bar and the close of the bar
  five positions before it, each present when it is a number.
\<close>

definition hour_now :: "json list \<Rightarrow> jsnum option" where
  "hour_now arr = (if arr = [] then None else close_number (arr ! (length arr - 1)))"

definition hour_base :: "json list \<Rightarrow> jsnum option" where
  "hour_base arr = (if length arr < 6 then None else close_number (arr ! (length arr - 6)))"

text \<open>The base of the session path: the close of the base row of a history with rows.\<close>

definition eod_base :: "json list \<Rightarrow> lookback \<Rightarrow> jsnum option" where
  "eod_base hist sessionsBack =
     (if hist = [] then None else close_number (baseRow hist sessionsBack))"



section \<open>Sample data\<close>

text \<open>A bar, or an end-of-day row, with a finite close.\<close>

definition bar :: "rat \<Rightarrow> json" where
  "bar c = JObj [(''close'', JNum (Fin c))]"

text \<open>A successful response of the intervals endpoint with the given bars.\<close>

definition bars_response :: "json list \<Rightarrow> api_body fetched" where
  "bars_response bars = Inr (Response 200 (Inr (JObj [(''intervals'', JArr bars)])))"

text \<open>A successful page of the prices endpoint with the given rows and next-page cursor.\<close>

definition prices_page :: "json list \<Rightarrow> json \<Rightarrow> api_body fetched" where
  "prices_page rows next =
     Inr (Response 200 (Inr (JObj [(''stock_prices'', JArr rows), (''next_page'', next)])))"

text \<open>An upstream whose intervals endpoint has five bars for every ticker.\<close>

definition five_bars :: upstream where
  "five_bars =
     \<lparr>listing = Inr (Response 200 (Inr [])),
      intervals_of = (\<lambda>t. bars_response [bar 100, bar 101, bar 102, bar 103, bar 104]),
      prices_of = (\<lambda>t c. prices_page [] JNull)\<rparr>"

text \<open>A listing page with three symbols, one of them twice.\<close>

definition listing_html :: string where
  \<open>listing_html =
     ''<td><a href="/symbol/AAPL">Apple</a></td><td><a href="/symbol/AAPL">AAPL</a></td>'' @
     ''<td><a href="/symbol/MSFT">Microsoft</a></td><td><a href="/symbol/BRK.B">Berkshire</a></td>''\<close>

definition six_bars :: "json list" where
  "six_bars = [bar 100, bar 101, bar 102, bar 103, bar 104, bar 110]"

text \<open>
  An upstream where every request for MSFT fails (the intervals fetch rejects, the
  prices body is not JSON) and every other ticker has six bars and two end-of-day rows.
\<close>

definition one_failing :: upstream where
  "one_failing =
     \<lparr>listing = Inr (Response 200 (Inr listing_html)),
      intervals_of = (\<lambda>t. if t = ''MSFT'' then Inl (JsError ''fetch failed'')
                           else bars_response six_bars),
      prices_of = (\<lambda>t c. if t = ''MSFT''
                           then Inr (Response 200 (Inl (JsError ''Unexpected token <'')))
                           else prices_page [bar 105, bar 100] JNull)\<rparr>"

text \<open>A request for the hour range with the default limit.\<close>

definition hour_request :: request where
  "hour_request = \<lparr>apiKey = Some ''key'', range_param = Some ''hour'', limit_param = None\<rparr>"

text \<open>A request for the hour range with the given limit.\<close>

definition limit_request :: "string \<Rightarrow> request" where
  "limit_request l = \<lparr>apiKey = Some ''key'', range_param = Some ''hour'', limit_param = Some l\<rparr>"

text \<open>
  An upstream whose end-of-day prices come in two pages, the first with one row and a
  cursor, the second with two rows and no cursor; every ticker has six bars.
\<close>

definition two_pages :: upstream where
  "two_pages =
     \<lparr>listing = Inr (Response 200 (Inr listing_html)),
      intervals_of = (\<lambda>t. bars_response six_bars),
      prices_of = (\<lambda>t c. if c = JNull then prices_page [bar 55] (JStr ''p2'')
                           else prices_page [bar 100, bar 90] JNull)\<rparr>"



section \<open>Pagination as specified\<close>




section \<open>Failures of the ticker list as specified\<close>

text \<open>The fetch of the listing page, or the reading of its body, rejects.\<close>

definition fetch_rejects :: "page_body fetched \<Rightarrow> bool" where
  "fetch_rejects f = (case f of Inl e \<Rightarrow> True | Inr resp \<Rightarrow> ok resp \<and> isl (payload resp))"

text \<open>The fetch of the listing page returns a response that is not 2xx.\<close>

definition returns_non_2xx :: "page_body fetched \<Rightarrow> bool" where
  "returns_non_2xx f = (case f of Inl e \<Rightarrow> False | Inr resp \<Rightarrow> \<not> ok resp)"

text \<open>The page was scanned and zero symbols were extracted.\<close>

definition zero_symbols_extracted :: "page_body fetched \<Rightarrow> int \<Rightarrow> bool" where
  "zero_symbols_extracted f limit =
     (case f of
        Inl e \<Rightarrow> False
      | Inr resp \<Rightarrow>
          ok resp \<and> (case payload resp of
                       Inl e \<Rightarrow> False
                     | Inr html \<Rightarrow> collect limit (matches_from 0 html) [] = []))"

text \<open>An upstream whose listing page answers 503.\<close>

definition unavailable :: upstream where
  "unavailable = \<lparr>listing = Inr (Response 503 (Inr ''Service Unavailable'')),
     intervals_of = (\<lambda>t. bars_response six_bars), prices_of = (\<lambda>t c. prices_page [] JNull)\<rparr>"

section \<open>Letter case as specified\<close>

text \<open>Two strings that differ only in the case of their letters.\<close>

definition same_letters :: "string \<Rightarrow> string \<Rightarrow> bool" where
  "same_letters r r' = (map lower_char r = map lower_char r')"

text \<open>A request to the route with the given range and limit parameters.\<close>

definition query_request :: "query option \<Rightarrow> query option \<Rightarrow> express_request" where
  "query_request r l = \<lparr>env_key = Some ''key'', query_range = r, query_limit = l\<rparr>"

section \<open>Sequential mapping as specified\<close>

text \<open>The worker applied to the tickers one after the other, in their order.\<close>

fun sequentially :: "(string \<Rightarrow> metric option) \<Rightarrow> string list \<Rightarrow> metric list option" where
  "sequentially w [] = Some []"
| "sequentially w (t # ts) =
     (case w t of
        None \<Rightarrow> None
      | Some m \<Rightarrow> (case sequentially w ts of None \<Rightarrow> None | Some ms \<Rightarrow> Some (m # ms)))"

section \<open>Rounding to binary64\<close>

lemma floorlog_pos: "0 < n \<Longrightarrow> 0 < floorlog 2 n"
  by (simp add: floorlog_def)

lemma pow2_nat_le: "(2::nat) ^ a \<le> n \<Longrightarrow> (2::rat) ^ a \<le> of_nat n"
  by (metis of_nat_le_iff of_nat_numeral of_nat_power)

lemma pow2_nat_less: "n < (2::nat) ^ a \<Longrightarrow> of_nat n + 1 \<le> (2::rat) ^ a"
proof -
  assume "n < 2 ^ a"
  then have "n + 1 \<le> 2 ^ a" by simp
  then have "(of_nat (n + 1)::rat) \<le> of_nat (2 ^ a)" by (simp only: of_nat_le_iff)
  then show ?thesis by simp
qed

lemma ilog2_bounds:
  assumes "x \<noteq> 0"
  shows "2 powi ilog2 x \<le> \<bar>x\<bar> \<and> \<bar>x\<bar> < 2 powi (ilog2 x + 1)"
proof (cases "1 \<le> \<bar>x\<bar>")
  case True
  define n where "n = nat \<lfloor>\<bar>x\<bar>\<rfloor>"
  define k where "k = floorlog 2 n"
  have n: "0 < n" "of_nat n \<le> \<bar>x\<bar>" "\<bar>x\<bar> < of_nat n + 1"
    using True by (auto simp: n_def le_nat_iff) linarith+
  have k: "0 < k" "2 ^ (k - 1) \<le> n" "n < 2 ^ k"
    using floorlog_bounds[of n 2] floorlog_pos[of n] n(1) by (auto simp: k_def)
  have e: "ilog2 x = int k - 1" using True by (simp add: ilog2_def n_def k_def)
  have p1: "(2::rat) powi (int k - 1) = 2 ^ (k - 1)"
    using k(1) by (simp add: power_int_def nat_diff_distrib')
  have p2: "(2::rat) powi (int k - 1 + 1) = 2 ^ k"
    by simp
  have "(2::rat) ^ (k - 1) \<le> \<bar>x\<bar>"
    using pow2_nat_le[OF k(2)] n(2) by linarith
  moreover have "\<bar>x\<bar> < (2::rat) ^ k"
    using pow2_nat_less[OF k(3)] n(3) by linarith
  ultimately show ?thesis unfolding e p1 p2 by simp
next
  case False
  define y where "y = 1 / \<bar>x\<bar>"
  define m where "m = nat (\<lceil>y\<rceil> - 1)"
  define k where "k = floorlog 2 m"
  have y: "1 < y" "0 < y" using False assms by (auto simp: y_def)
  have m: "0 < m" "of_nat m < y" "y \<le> of_nat m + 1"
    using y by (auto simp: m_def) linarith+
  have k: "0 < k" "2 ^ (k - 1) \<le> m" "m < 2 ^ k"
    using floorlog_bounds[of m 2] floorlog_pos[of m] m(1) by (auto simp: k_def)
  have e: "ilog2 x = - int k" using False by (simp add: ilog2_def m_def k_def y_def)
  have x: "\<bar>x\<bar> = 1 / y" by (simp add: y_def)
  have a: "(2::rat) ^ (k - 1) < y"
    using pow2_nat_le[OF k(2)] m(2) by linarith
  have b: "y \<le> (2::rat) ^ k"
    using pow2_nat_less[OF k(3)] m(3) by linarith
  have p1: "(2::rat) powi (- int k) = 1 / 2 ^ k"
    by (simp add: power_int_def field_simps)
  have p2: "(2::rat) powi (- int k + 1) = 1 / 2 ^ (k - 1)"
    using k(1) by (cases k) (simp_all add: power_int_def field_simps nat_add_distrib)
  have "1 / 2 ^ k \<le> 1 / y" using b y by (simp add: field_simps)
  moreover have "1 / y < 1 / 2 ^ (k - 1)" using a y by (simp add: field_simps)
  ultimately show ?thesis unfolding e x p1 p2 by simp
qed

lemma ilog2_unique:
  assumes "x \<noteq> 0" "2 powi e \<le> \<bar>x\<bar>" "\<bar>x\<bar> < 2 powi (e + 1)"
  shows "ilog2 x = e"
proof -
  have b: "2 powi ilog2 x \<le> \<bar>x\<bar>" "\<bar>x\<bar> < 2 powi (ilog2 x + 1)"
    using ilog2_bounds[OF assms(1)] by simp_all
  have "(2::rat) powi e < 2 powi (ilog2 x + 1)" using assms(2) b(2) by simp
  then have 1: "e < ilog2 x + 1"
    by (metis power_int_increasing not_le one_le_numeral)
  have "(2::rat) powi ilog2 x < 2 powi (e + 1)" using assms(3) b(1) by simp
  then have 2: "ilog2 x < e + 1"
    by (metis power_int_increasing not_le one_le_numeral)
  from 1 2 show ?thesis by simp
qed

lemma round_half_even_near: "\<bar>q - of_int n\<bar> < 1 / 2 \<Longrightarrow> round_half_even q = n"
proof (cases "of_int n \<le> q")
  case True
  assume a: "\<bar>q - of_int n\<bar> < 1 / 2"
  then have "\<lfloor>q\<rfloor> = n" using True by (intro floor_unique) auto
  then show ?thesis using a True by (simp add: round_half_even_def Let_def)
next
  case False
  assume a: "\<bar>q - of_int n\<bar> < 1 / 2"
  then have "\<lfloor>q\<rfloor> = n - 1" using False by (intro floor_unique) auto
  then show ?thesis using a False by (simp add: round_half_even_def Let_def)
qed

text \<open>
  The value of \<open>fl x\<close> from the exponent \<open>e\<close> of \<open>x\<close> and the nearest multiple \<open>n\<close> of the
  spacing \<open>2^(e - 52)\<close>, when \<open>x\<close> is not half-way between two multiples.
\<close>

lemma fl_near:
  assumes "2 powi e \<le> \<bar>x\<bar>" "\<bar>x\<bar> < 2 powi (e + 1)" "- 1022 \<le> e"
    and "\<bar>x / 2 powi (e - 52) - of_int n\<bar> < 1 / 2"
    and "\<bar>of_int n * 2 powi (e - 52)\<bar> < (2::rat) powi 1024"
  shows "fl x = Fin (of_int n * 2 powi (e - 52))"
proof -
  define r :: rat where "r = of_int n * 2 powi (e - 52)"
  have "0 < \<bar>x\<bar>" using assms(1) zero_less_power_int[of "2::rat" e] by linarith
  then have x0: "x \<noteq> 0" by auto
  have "ilog2 x = e" using ilog2_unique[OF x0 assms(1,2)] .
  then have m: "max (ilog2 x) (- 1022) = e" using assms(3) by simp
  have rn: "of_int (round_half_even (x / 2 powi (e - 52))) * 2 powi (e - 52) = r"
    using round_half_even_near[OF assms(4)] by (simp add: r_def)
  have r1: "\<not> 2 powi 1024 \<le> r" and r2: "\<not> r \<le> - (2 powi 1024)"
    using assms(5) unfolding r_def by linarith+
  show ?thesis
    unfolding fl_def Let_def m rn using x0 r1 r2 by (simp only: if_False r_def)
qed

lemma fl_10: "fl 10 = Fin 10"
  using fl_near[of 3 10 5629499534213120] by simp

lemma fl_tenth: "fl (1 / 10) = Fin (3602879701896397 / 36028797018963968)"
  using fl_near[of "- 4" "1 / 10" 7205759403792794] by simp

lemma fl_tenth_times_100: "fl (3602879701896397 / 36028797018963968 * 100) = Fin 10"
  using fl_near[of 3 "3602879701896397 / 36028797018963968 * 100" 5629499534213120] by simp

text \<open>\<^verbatim>\<open>((110 - 100) / 100) * 100\<close> is \<^verbatim>\<open>10\<close> in binary64 arithmetic.\<close>

lemma pct_110_100: "js_mul (js_div (js_sub (Fin 110) (Fin 100)) (Fin 100)) (Fin 100) = Fin 10"
  using fl_10 fl_tenth fl_tenth_times_100 by (simp add: js_sub_def)

text \<open>Integers below \<open>2^53\<close> in magnitude are exact; larger ones stay as large.\<close>

lemma round_half_even_of_int: "round_half_even (of_int k) = k"
  using round_half_even_near[of "of_int k" k] by simp

lemma round_half_even_ge: "of_int k \<le> y \<Longrightarrow> k \<le> round_half_even y"
proof -
  assume "of_int k \<le> y"
  then have "k \<le> \<lfloor>y\<rfloor>" by (simp add: le_floor_iff)
  then show ?thesis by (simp add: round_half_even_def Let_def)
qed

lemma round_half_even_le: "y \<le> of_int k \<Longrightarrow> round_half_even y \<le> k"
proof (cases "y = of_int k")
  case True
  then show ?thesis by (simp add: round_half_even_of_int)
next
  case False
  assume "y \<le> of_int k"
  then have "y < of_int k" using False by simp
  then have "\<lfloor>y\<rfloor> < k" by (simp add: floor_less_iff)
  then show ?thesis by (simp add: round_half_even_def Let_def)
qed

lemma powi2_less_cancel: "(2::rat) powi a < 2 powi b \<Longrightarrow> a < b"
  using power_int_increasing[of b a "2::rat"] by (cases "b \<le> a") auto

lemma fl_int:
  assumes "\<bar>n\<bar> < 2 ^ 53"
  shows "fl (of_int n) = Fin (of_int n)"
proof (cases "n = 0")
  case True
  then show ?thesis by (simp add: fl_def)
next
  case False
  define x :: rat where "x = of_int n"
  define e where "e = ilog2 x"
  have x0: "x \<noteq> 0" using False by (simp add: x_def)
  have x1: "1 \<le> \<bar>x\<bar>"
  proof -
    have "1 \<le> \<bar>n\<bar>" using False by simp
    then have "(of_int 1 :: rat) \<le> of_int \<bar>n\<bar>" by (simp only: of_int_le_iff)
    then show ?thesis by (simp add: x_def)
  qed
  have x2: "\<bar>x\<bar> < 2 powi 53"
  proof -
    have "(of_int \<bar>n\<bar> :: rat) < of_int (2 ^ 53)" using assms by (simp only: of_int_less_iff)
    then show ?thesis by (simp add: x_def)
  qed
  have b: "2 powi e \<le> \<bar>x\<bar>" "\<bar>x\<bar> < 2 powi (e + 1)"
    using ilog2_bounds[OF x0] by (simp_all add: e_def)
  have "(2::rat) powi 0 < 2 powi (e + 1)" using x1 b(2) by simp
  then have e0: "0 \<le> e" using powi2_less_cancel[of 0 "e + 1"] by simp
  have "(2::rat) powi e < 2 powi 53" using x2 b(1) by linarith
  then have e52: "e \<le> 52" using powi2_less_cancel[of e 53] by simp
  define k where "k = n * 2 ^ nat (52 - e)"
  have u: "(2::rat) powi (e - 52) = 1 / 2 ^ nat (52 - e)"
    using e52 by (simp add: power_int_def field_simps)
  have q: "x / 2 powi (e - 52) = of_int k" by (simp add: u k_def x_def)
  have r: "of_int k * (2::rat) powi (e - 52) = x" by (simp add: u k_def x_def)
  have "fl x = Fin (of_int k * 2 powi (e - 52))"
  proof (rule fl_near[OF b])
    show "- 1022 \<le> e" using e0 by simp
    show "\<bar>x / 2 powi (e - 52) - of_int k\<bar> < 1 / 2" by (simp add: q)
    show "\<bar>of_int k * 2 powi (e - 52)\<bar> < (2::rat) powi 1024"
      unfolding r using x2 power_int_increasing[of 53 1024 "2::rat"] by linarith
  qed
  then show ?thesis unfolding r by (simp add: x_def)
qed

lemma fl_big:
  assumes "2 ^ 53 \<le> x"
  shows "fl x = PInf \<or> (\<exists>q. fl x = Fin q \<and> 2 ^ 53 \<le> q)"
proof -
  define e where "e = ilog2 x"
  have p53: "(0::rat) < 2 ^ 53" by simp
  have x0: "x \<noteq> 0" "0 < x" using assms p53 by linarith+
  have b: "2 powi e \<le> x" "x < 2 powi (e + 1)"
    using ilog2_bounds[OF x0(1)] x0(2) by (simp_all add: e_def)
  have "(2::rat) powi 53 < 2 powi (e + 1)" using assms b(2) by simp
  then have e53: "53 \<le> e" using powi2_less_cancel[of 53 "e + 1"] by simp
  define u :: rat where "u = 2 powi (e - 52)"
  have u0: "0 < u" by (simp add: u_def)
  have pe: "(2::rat) powi e = 2 ^ 52 * u"
    unfolding u_def using power_int_add[of "2::rat" 52 "e - 52"] by simp
  have "of_int (2 ^ 52) \<le> x / u" using b(1) u0 by (simp add: pe field_simps)
  then have "2 ^ 52 \<le> round_half_even (x / u)" by (rule round_half_even_ge)
  then have "(of_int (2 ^ 52) :: rat) \<le> of_int (round_half_even (x / u))" by (simp only: of_int_le_iff)
  then have "2 ^ 52 * u \<le> of_int (round_half_even (x / u)) * u" using u0 by simp
  then have r: "2 powi e \<le> of_int (round_half_even (x / u)) * u" by (simp add: pe)
  have "(2::rat) powi 53 \<le> 2 powi e" using e53 by (intro power_int_increasing) auto
  then have r53: "2 ^ 53 \<le> of_int (round_half_even (x / u)) * u" using r by simp
  have m: "max (ilog2 x) (- 1022) = e" using e53 by (simp add: e_def)
  have neg: "\<not> of_int (round_half_even (x / u)) * u \<le> - (2 powi 1024)"
    using r53 p53 zero_less_power_int[of "2::rat" 1024] by linarith
  show ?thesis
    unfolding fl_def Let_def m using x0(1) r53 neg by (auto simp: u_def)
qed

lemma fl_big_neg:
  assumes "x \<le> - (2 ^ 53)"
  shows "fl x = NInf \<or> (\<exists>q. fl x = Fin q \<and> q \<le> - (2 ^ 53))"
proof -
  define e where "e = ilog2 x"
  have p53: "(0::rat) < 2 ^ 53" by simp
  have x0: "x \<noteq> 0" "x < 0" using assms p53 by linarith+
  have b: "2 powi e \<le> - x" "- x < 2 powi (e + 1)"
    using ilog2_bounds[OF x0(1)] x0(2) by (simp_all add: e_def)
  have "(2::rat) powi 53 < 2 powi (e + 1)" using assms b(2) by simp
  then have e53: "53 \<le> e" using powi2_less_cancel[of 53 "e + 1"] by simp
  define u :: rat where "u = 2 powi (e - 52)"
  have u0: "0 < u" by (simp add: u_def)
  have pe: "(2::rat) powi e = 2 ^ 52 * u"
    unfolding u_def using power_int_add[of "2::rat" 52 "e - 52"] by simp
  have "x / u \<le> of_int (- (2 ^ 52))" using b(1) u0 by (simp add: pe field_simps)
  then have "round_half_even (x / u) \<le> - (2 ^ 52)" by (rule round_half_even_le)
  then have "(of_int (round_half_even (x / u)) :: rat) \<le> of_int (- (2 ^ 52))" by (simp only: of_int_le_iff)
  then have "of_int (round_half_even (x / u)) * u \<le> (- (2 ^ 52)) * u"
    using u0 by (intro mult_right_mono) auto
  then have r: "of_int (round_half_even (x / u)) * u \<le> - (2 powi e)" by (simp add: pe)
  have "(2::rat) powi 53 \<le> 2 powi e" using e53 by (intro power_int_increasing) auto
  then have r53: "of_int (round_half_even (x / u)) * u \<le> - (2 ^ 53)" using r by simp
  have m: "max (ilog2 x) (- 1022) = e" using e53 by (simp add: e_def)
  have neg: "\<not> 2 powi 1024 \<le> of_int (round_half_even (x / u)) * u"
    using r53 p53 zero_less_power_int[of "2::rat" 1024] by linarith
  show ?thesis
    unfolding fl_def Let_def m using x0(1) r53 neg by (auto simp: u_def)
qed

section \<open>Bars and rows\<close>

lemma close_number_truthy: "close_number x = Some c \<Longrightarrow> truthy x"
  by (cases x) (simp_all add: close_number_def)

lemma close_number_not_truthy: "\<not> truthy x \<Longrightarrow> close_number x = None"
  using close_number_truthy by (cases "close_number x") auto

lemma close_number_bar: "close_number (bar c) = Some (Fin c)"
  by (simp add: bar_def close_number_def)

lemma truthy_bar: "truthy (bar c)"
  by (simp add: bar_def)

lemma latest15mClose_bars:
  "latest15mClose (bars_response bars) =
     Inr \<lparr>latest_price = (if bars = [] then None else close_number (last bars)),
          latest_intervals = bars\<rparr>"
  by (simp add: latest15mClose_def bars_response_def ok_def Let_def last_conv_nth
      close_number_not_truthy)

lemma latest_price_last:
  "latest15mClose f = Inr l \<Longrightarrow>
     latest_price l = (if latest_intervals l = [] then None else close_number (last (latest_intervals l)))"
  by (auto simp: latest15mClose_def Let_def last_conv_nth close_number_not_truthy
      split: sum.splits if_splits)

section \<open>Percent change\<close>

lemma hourly_pct:
  "changePct (hourlyChangeFromIntervals arr) = percent_change (hour_now arr) (hour_base arr)"
proof (cases "length arr < 6")
  case True
  then show ?thesis
    by (simp add: hourlyChangeFromIntervals_def percent_change_def hour_base_def
        split: option.splits)
next
  case False
  then have ne: "arr \<noteq> []" by auto
  show ?thesis
    using False ne
    by (auto simp: hourlyChangeFromIntervals_def percent_change_def hour_base_def hour_now_def
        Let_def close_number_not_truthy split: option.splits intro: close_number_truthy)
qed

lemma eod_pct:
  "changePct (eodChange hist now15 sessionsBack) = percent_change now15 (eod_base hist sessionsBack)"
  by (auto simp: eodChange_def percent_change_def eod_base_def Let_def close_number_not_truthy
      split: option.splits intro: close_number_truthy)

text \<open>
  C3.  With fewer than six bars the hourly change is \<^verbatim>\<open>{ base: null, changePct: null }\<close>.
  With exactly six bars whose first and last closes are the numbers \<open>c0\<close> and \<open>c5\<close>, and
  \<open>c0\<close> not zero, the base is \<open>c0\<close> and the change is \<open>((c5 - c0) / c0) * 100\<close>.
\<close>

theorem hourly_change_of_six_bars:
  "(length arr < 6 \<longrightarrow> hourlyChangeFromIntervals arr = \<lparr>base = None, changePct = None\<rparr>) \<and>
   (close_number b0 = Some c0 \<and> close_number b5 = Some c5 \<and> c0 \<noteq> Fin 0 \<longrightarrow>
      hourlyChangeFromIntervals [b0, b1, b2, b3, b4, b5]
        = \<lparr>base = Some c0, changePct = Some (js_mul (js_div (js_sub c5 c0) c0) (Fin 100))\<rparr>)"
  by (auto simp: hourlyChangeFromIntervals_def Let_def close_number_truthy)

theorem hourly_change_of_six_bars_witness:
  "hourlyChangeFromIntervals [bar 100, bar 101, bar 102, bar 103, bar 104]
     = \<lparr>base = None, changePct = None\<rparr> \<and>
   hourlyChangeFromIntervals [bar 100, bar 101, bar 102, bar 103, bar 104, bar 110]
     = \<lparr>base = Some (Fin 100), changePct = Some (Fin 10)\<rparr>"
  using hourly_change_of_six_bars[of "[bar 100, bar 101, bar 102, bar 103, bar 104]"
      "bar 100" "Fin 100" "bar 110" "Fin 110" "bar 101" "bar 102" "bar 103" "bar 104"]
  by (simp add: close_number_bar pct_110_100)

text \<open>
  C8, as stated: with fewer than six bars on the hour path both fields are \<^verbatim>\<open>null\<close>.
  With five bars the price is the close of the last bar.
\<close>

theorem hour_price_with_five_bars:
  "worker five_bars ''hour'' ''AAPL''
     = Some \<lparr>ticker = ''AAPL'', price = Some (Fin 104), changePercent = None\<rparr>"
  by (simp add: worker_def five_bars_def latest15mClose_bars hourlyChangeFromIntervals_def
      close_number_bar)

text \<open>
  C8, amended.  On the hour path with fewer than six bars the change is \<^verbatim>\<open>null\<close>, and the
  price is the close of the last bar when there is a bar and that close is a number, and
  \<^verbatim>\<open>null\<close> otherwise; when reading the intervals throws, both are \<^verbatim>\<open>null\<close>.
\<close>

theorem hour_metric_below_six_bars:
  "(latest15mClose (intervals_of up t) = Inr l \<and> length (latest_intervals l) < 6 \<longrightarrow>
      worker up ''hour'' t =
        Some \<lparr>ticker = t,
              price = (if latest_intervals l = [] then None
                       else close_number (last (latest_intervals l))),
              changePercent = None\<rparr>) \<and>
   (latest15mClose (intervals_of up t) = Inl e \<longrightarrow>
      worker up ''hour'' t = Some \<lparr>ticker = t, price = None, changePercent = None\<rparr>)"
  using latest_price_last[of "intervals_of up t" l]
  by (auto simp: worker_def hourlyChangeFromIntervals_def)

theorem hour_metric_below_six_bars_witness:
  "latest15mClose (intervals_of five_bars ''MSFT'')
     = Inr \<lparr>latest_price = Some (Fin 104),
            latest_intervals = [bar 100, bar 101, bar 102, bar 103, bar 104]\<rparr> \<and>
   worker five_bars ''hour'' ''MSFT''
     = Some \<lparr>ticker = ''MSFT'', price = Some (Fin 104), changePercent = None\<rparr> \<and>
   latest15mClose (intervals_of one_failing ''MSFT'') = Inl (JsError ''fetch failed'') \<and>
   worker one_failing ''hour'' ''MSFT''
     = Some \<lparr>ticker = ''MSFT'', price = None, changePercent = None\<rparr>"
proof -
  have a: "latest15mClose (intervals_of one_failing ''MSFT'') = Inl (JsError ''fetch failed'')"
    by (simp add: one_failing_def latest15mClose_def)
  show ?thesis
    using hour_metric_below_six_bars[of five_bars "''MSFT''"
        "\<lparr>latest_price = Some (Fin 104),
          latest_intervals = [bar 100, bar 101, bar 102, bar 103, bar 104]\<rparr>"]
      hour_metric_below_six_bars[of one_failing "''MSFT''" _ "JsError ''fetch failed''"] a
    by (simp add: five_bars_def latest15mClose_bars close_number_bar)
qed

section \<open>The limit\<close>

lemma parseInt_cases:
  "parseInt v = NaN \<or> (\<exists>n. parseInt v = fl (of_int n))"
proof (cases v)
  case None
  then show ?thesis by (simp add: parseInt_def)
next
  case (Some s)
  have "\<And>x. \<exists>n. fl (of_int x) = fl (of_int n)" by blast
  then show ?thesis unfolding parseInt_def Let_def Some option.case
    by (simp only: split: if_splits) blast
qed

lemma clamp_int:
  "js_max (Fin 1) (js_min (Fin 100) (Fin (of_int n))) = Fin (of_int (max 1 (min 100 n)))"
  by (auto simp: js_max_def js_min_def max_def min_def)

lemma clamp_Fin:
  "js_max (Fin 1) (js_min (Fin 100) (Fin q)) = Fin (max 1 (min 100 q))"
  by (auto simp: js_max_def js_min_def max_def min_def)

lemma clamp_fl_int:
  "\<exists>k. 1 \<le> k \<and> k \<le> 100 \<and>
     js_max (Fin 1) (js_min (Fin 100) (if isFinite (fl (of_int n)) then fl (of_int n) else Fin 10))
       = Fin (of_int k)"
proof -
  consider "\<bar>n\<bar> < 2 ^ 53" | "2 ^ 53 \<le> n" | "n \<le> - (2 ^ 53)" by linarith
  then show ?thesis
  proof cases
    case 1
    have "1 \<le> max 1 (min 100 n) \<and> max 1 (min 100 n) \<le> 100" by simp
    then show ?thesis using fl_int[OF 1] clamp_int[of n] by (intro exI[of _ "max 1 (min 100 n)"]) simp
  next
    case 2
    then have "(of_int (2 ^ 53) :: rat) \<le> of_int n" by (simp only: of_int_le_iff)
    then have "(2::rat) ^ 53 \<le> of_int n" by simp
    from fl_big[OF this] show ?thesis
    proof
      assume "fl (of_int n) = PInf"
      then show ?thesis by (intro exI[of _ 10]) (simp add: js_max_def js_min_def)
    next
      assume "\<exists>q. fl (of_int n) = Fin q \<and> 2 ^ 53 \<le> q"
      then obtain q where q: "fl (of_int n) = Fin q" "2 ^ 53 \<le> q" by auto
      then have "100 \<le> q" by simp
      then show ?thesis using q(1) by (intro exI[of _ 100]) (simp add: js_max_def js_min_def)
    qed
  next
    case 3
    then have "(of_int n :: rat) \<le> of_int (- (2 ^ 53))" by (simp only: of_int_le_iff)
    then have "of_int n \<le> - ((2::rat) ^ 53)" by simp
    from fl_big_neg[OF this] show ?thesis
    proof
      assume "fl (of_int n) = NInf"
      then show ?thesis by (intro exI[of _ 10]) (simp add: js_max_def js_min_def)
    next
      assume "\<exists>q. fl (of_int n) = Fin q \<and> q \<le> - (2 ^ 53)"
      then obtain q where q: "fl (of_int n) = Fin q" "q \<le> - (2 ^ 53)" by auto
      then have "q \<le> 1" by simp
      then show ?thesis using q(1) by (intro exI[of _ 1]) (simp add: js_max_def js_min_def)
    qed
  qed
qed

lemma LIMIT_integer: "\<exists>k. 1 \<le> k \<and> k \<le> 100 \<and> LIMIT v = Fin (of_int k)"
proof -
  from parseInt_cases[of v] show ?thesis
  proof
    assume "parseInt v = NaN"
    then show ?thesis by (intro exI[of _ 10]) (simp add: LIMIT_def js_max_def js_min_def)
  next
    assume "\<exists>n. parseInt v = fl (of_int n)"
    then obtain n where "parseInt v = fl (of_int n)" by auto
    then show ?thesis using clamp_fl_int[of n] by (simp add: LIMIT_def Let_def)
  qed
qed

lemma LIMIT_to_int: "1 \<le> to_int (LIMIT v) \<and> to_int (LIMIT v) \<le> 100 \<and> LIMIT v = Fin (of_int (to_int (LIMIT v)))"
  using LIMIT_integer[of v] by auto

lemma CONCURRENCY_to_int:
  "to_int (CONCURRENCY v) = min (to_int (LIMIT v)) 10 \<and> CONCURRENCY v = Fin (of_int (to_int (CONCURRENCY v)))"
proof -
  obtain k where k: "1 \<le> k" "k \<le> 100" "LIMIT v = Fin (of_int k)" using LIMIT_integer[of v] by auto
  have "js_min (Fin (of_int k)) (Fin 10) = Fin (of_int (min k 10))"
    by (auto simp: js_min_def min_def)
  then show ?thesis using k by (simp add: CONCURRENCY_def)
qed

lemma parseInt_1000: "parseInt (Some ''1000'') = Fin 1000"
  using fl_int[of 1000]
  by (simp add: parseInt_def space_length_def is_digit_def digits_value_def digit_value_def)

lemma parseInt_0: "parseInt (Some ''0'') = Fin 0"
  using fl_int[of 0]
  by (simp add: parseInt_def space_length_def is_digit_def digits_value_def digit_value_def)

lemma parseInt_abc: "parseInt (Some ''abc'') = NaN"
  by (simp add: parseInt_def space_length_def is_digit_def digits_value_def digit_value_def)

text \<open>White space and a sign before the digits, text after them.\<close>

lemma parseInt_neg: "parseInt (Some '' -25px'') = Fin (- 25)"
  using fl_int[of "- 25"]
  by (simp add: parseInt_def space_length_def is_digit_def digits_value_def digit_value_def)

text \<open>A no-break space, and a byte-order mark, a line separator and a tab, before the digit.\<close>

lemma parseInt_nbsp: "parseInt (Some [CHR 0xC2, CHR 0xA0, CHR ''5'']) = Fin 5"
  using fl_int[of 5]
  by (simp add: parseInt_def space_length_def is_digit_def digits_value_def digit_value_def)

lemma parseInt_spaces:
  "parseInt (Some ([CHR 0xEF, CHR 0xBB, CHR 0xBF, CHR 0xE2, CHR 0x80, CHR 0xA8, CHR 0x09] @ ''7'')) = Fin 7"
  using fl_int[of 7]
  by (simp add: parseInt_def space_length_def is_digit_def digits_value_def digit_value_def)

section \<open>The batch loop\<close>

lemma those_append:
  "those (xs @ ys) = (case those xs of None \<Rightarrow> None | Some a \<Rightarrow> map_option ((@) a) (those ys))"
  by (induction xs) (cases "those ys"; auto split: option.splits)+

lemma promise_all_split:
  "promise_all w ts = (case promise_all w (take c ts) of None \<Rightarrow> None
      | Some a \<Rightarrow> map_option ((@) a) (promise_all w (drop c ts)))"
  unfolding promise_all_def
  using those_append[of "map w (take c ts)" "map w (drop c ts)"]
  by (simp flip: map_append)

lemma batch_loop_from:
  assumes "0 < c"
  shows "batch_loop c w ts i out = map_option ((@) out) (promise_all w (drop i ts))"
proof (induction "length ts - i" arbitrary: i out rule: less_induct)
  case less
  show ?case
  proof (cases "i < length ts")
    case False
    then show ?thesis by (subst batch_loop.simps) (simp add: promise_all_def)
  next
    case True
    have lt: "length ts - (i + c) < length ts - i" using True assms by simp
    show ?thesis
    proof (cases "promise_all w (take c (drop i ts))")
      case None
      then show ?thesis using True
        by (subst batch_loop.simps) (simp add: promise_all_split[of w "drop i ts" c])
    next
      case (Some batch)
      have "batch_loop c w ts i out = batch_loop c w ts (i + c) (out @ batch)"
        using True Some by (subst batch_loop.simps) simp
      also have "\<dots> = map_option ((@) (out @ batch)) (promise_all w (drop (i + c) ts))"
        using less[OF lt] .
      also have "\<dots> = map_option ((@) out) (promise_all w (drop i ts))"
        using Some
        by (cases "promise_all w (drop (i + c) ts)")
          (simp_all add: promise_all_split[of w "drop i ts" c] add.commute)
      finally show ?thesis .
    qed
  qed
qed

lemma batch_loop_all: "0 < c \<Longrightarrow> batch_loop c w ts 0 [] = promise_all w ts"
  by (cases "promise_all w ts") (simp_all add: batch_loop_from)

lemma those_Some_iff:
  "those xs = Some ys \<longleftrightarrow> xs = map Some ys"
  by (induction xs arbitrary: ys) (auto split: option.splits)

section \<open>The ticker list and the reply\<close>

lemma match_symbol_nonempty: "match_symbol s = Some t \<Longrightarrow> t \<noteq> []"
  by (auto simp: match_symbol_def Let_def split: if_splits)

lemma matches_from_nonempty: "t \<in> set (matches_from k s) \<Longrightarrow> t \<noteq> []"
  by (induction k s rule: matches_from.induct)
    (auto split: if_splits option.splits dest: match_symbol_nonempty)

lemma collect_set: "set (collect limit ms out) \<subseteq> set out \<union> set ms"
  by (induction limit ms out rule: collect.induct) auto

lemma collect_distinct: "distinct out \<Longrightarrow> distinct (collect limit ms out)"
  by (induction limit ms out rule: collect.induct) auto

lemma collect_length:
  "int (length out) \<le> limit \<Longrightarrow> int (length (collect limit ms out)) \<le> limit"
  by (induction limit ms out rule: collect.induct) auto

lemma collect_empty_iff:
  "collect limit ms [] = [] \<longleftrightarrow> ms = [] \<or> limit \<le> 0"
proof -
  have grow: "\<And>out. out \<noteq> [] \<Longrightarrow> collect limit ms out \<noteq> []" for ms
    by (induction ms) auto
  show ?thesis by (cases ms) (auto simp: grow)
qed

lemma getTopTickers_Inr:
  assumes "getTopTickers f limit = Inr ts"
  shows "ts \<noteq> [] \<and> int (length ts) \<le> limit \<and> distinct ts \<and> (\<forall>t\<in>set ts. t \<noteq> [])"
proof -
  obtain resp html where f: "f = Inr resp" "ok resp" "payload resp = Inr html"
    using assms by (auto simp: getTopTickers_def split: sum.splits if_splits)
  define out where "out = collect limit (matches_from 0 html) []"
  have o: "out \<noteq> []" "ts = slice0 out limit"
    using assms f by (auto simp: getTopTickers_def Let_def out_def split: if_splits)
  have pos: "0 < limit" using o(1) collect_empty_iff[of limit "matches_from 0 html"]
    by (auto simp: out_def)
  have len: "int (length out) \<le> limit" unfolding out_def using pos by (intro collect_length) simp
  have ts: "ts = out" using o(2) len pos by (simp add: slice0_def)
  have "set out \<subseteq> set (matches_from 0 html)"
    unfolding out_def using collect_set[of limit _ "[]"] by simp
  then have "\<forall>t\<in>set out. t \<noteq> []" using matches_from_nonempty by blast
  moreover have "distinct out" unfolding out_def by (intro collect_distinct) simp
  ultimately show ?thesis using ts o(1) len by simp
qed

lemma worker_ticker: "worker up r t = Some m \<Longrightarrow> ticker m = t"
  by (auto simp: worker_def Let_def split: if_splits sum.splits option.splits)

lemma promise_all_Some:
  "promise_all w ts = Some out \<longleftrightarrow> map w ts = map Some out"
  by (simp add: promise_all_def those_Some_iff)

lemma promise_all_worker:
  assumes "promise_all (worker up r) ts = Some out"
  shows "length out = length ts \<and> map ticker out = ts"
proof -
  have m: "map (worker up r) ts = map Some out" using assms by (simp add: promise_all_Some)
  then have l: "length out = length ts" by (metis length_map)
  have "\<forall>i<length ts. ticker (out ! i) = ts ! i"
  proof (intro allI impI)
    fix i assume i: "i < length ts"
    then have "worker up r (ts ! i) = Some (out ! i)"
      using m l by (metis nth_map)
    then show "ticker (out ! i) = ts ! i" by (rule worker_ticker)
  qed
  then show ?thesis using l by (simp add: list_eq_iff_nth_eq)
qed

lemma handler_with_tickers:
  assumes key: "apiKey req \<noteq> None" "apiKey req \<noteq> Some []"
    and tk: "getTopTickers (listing up) (to_int (LIMIT (limit_param req))) = Inr ts"
  shows "handler req up =
           map_option Json200 (promise_all (worker up (range_of (range_param req))) ts)"
proof -
  note g = getTopTickers_Inr[OF tk]
  have c: "0 < nat (to_int (CONCURRENCY (limit_param req)))"
    using CONCURRENCY_to_int[of "limit_param req"] LIMIT_to_int[of "limit_param req"] by simp
  show ?thesis
  proof (cases "promise_all (worker up (range_of (range_param req))) ts")
    case None
    then show ?thesis using key tk by (simp add: handler_def Let_def batch_loop_all[OF c])
  next
    case (Some out)
    note p = promise_all_worker[OF Some]
    have f: "filter (\<lambda>x. ticker x \<noteq> []) out = out"
    proof -
      have "\<forall>x\<in>set out. ticker x \<in> set ts" using p by (metis image_eqI list.set_map)
      then show ?thesis using g by (auto simp: filter_id_conv)
    qed
    have s: "slice0 out (to_int (LIMIT (limit_param req))) = out"
      using p g LIMIT_to_int[of "limit_param req"] by (auto simp: slice0_def)
    show ?thesis using key tk Some by (simp add: handler_def Let_def batch_loop_all[OF c] f s)
  qed
qed

section \<open>The batch as a whole\<close>

lemma matches_listing: "matches_from 0 listing_html = [''AAPL'', ''AAPL'', ''MSFT'', ''BRK.B'']"
  by (simp add: listing_html_def match_symbol_def is_symbol_char_def Let_def)

lemma tickers_listing:
  "getTopTickers (Inr (Response 200 (Inr listing_html))) 10 = Inr [''AAPL'', ''MSFT'', ''BRK.B'']"
  by (simp add: getTopTickers_def ok_def matches_listing Let_def slice0_def)

lemma sequentially_promise_all: "sequentially w ts = promise_all w ts"
  by (induction ts) (auto simp: promise_all_def split: option.splits)

lemma worker_hour_ok:
  "t \<noteq> ''MSFT'' \<Longrightarrow> worker one_failing ''hour'' t = Some \<lparr>ticker = t, price = Some (Fin 110), changePercent = Some (Fin 10)\<rparr>"
  by (simp add: worker_def one_failing_def latest15mClose_bars six_bars_def
      hourlyChangeFromIntervals_def close_number_bar truthy_bar pct_110_100)

lemma worker_hour_failing:
  "worker one_failing ''hour'' ''MSFT'' = Some \<lparr>ticker = ''MSFT'', price = None, changePercent = None\<rparr>"
  by (simp add: worker_def one_failing_def latest15mClose_def)

text \<open>
  C4.  The chunk size is \<open>min(LIMIT, 10)\<close> and positive.  For a positive chunk size the
  loop over consecutive chunks, each awaited in full, returns what applying the worker to
  the tickers one after the other returns; when it returns, the array has the length of
  the ticker list and its \<open>i\<close>-th metric is the worker's result for, and carries, the
  \<open>i\<close>-th ticker.
\<close>

theorem batch_loop_is_sequential:
  "to_int (CONCURRENCY limit) = min (to_int (LIMIT limit)) 10 \<and>
   0 < to_int (CONCURRENCY limit) \<and>
   (0 < c \<longrightarrow> batch_loop c w tickers 0 [] = sequentially w tickers) \<and>
   (0 < c \<and> batch_loop c (worker up r) tickers 0 [] = Some out \<longrightarrow>
      length out = length tickers \<and>
      (\<forall>i<length tickers. ticker (out ! i) = tickers ! i \<and> worker up r (tickers ! i) = Some (out ! i)))"
proof -
  have c: "0 < to_int (CONCURRENCY limit)"
    using CONCURRENCY_to_int[of limit] LIMIT_to_int[of limit] by simp
  have "length out = length tickers \<and>
      (\<forall>i<length tickers. ticker (out ! i) = tickers ! i \<and> worker up r (tickers ! i) = Some (out ! i))"
    if "promise_all (worker up r) tickers = Some out"
  proof -
    have m: "map (worker up r) tickers = map Some out" using that by (simp add: promise_all_Some)
    have p: "length out = length tickers" "map ticker out = tickers"
      using promise_all_worker[OF that] by simp_all
    have "\<forall>i<length tickers. worker up r (tickers ! i) = Some (out ! i)"
      using m p(1) by (metis nth_map)
    moreover have "\<forall>i<length tickers. ticker (out ! i) = tickers ! i"
      using p by (metis nth_map)
    ultimately show ?thesis using p(1) by simp
  qed
  then have "0 < c \<and> batch_loop c (worker up r) tickers 0 [] = Some out \<longrightarrow>
      length out = length tickers \<and>
      (\<forall>i<length tickers. ticker (out ! i) = tickers ! i \<and> worker up r (tickers ! i) = Some (out ! i))"
    using batch_loop_all[of c "worker up r" tickers] by auto
  moreover have "0 < c \<longrightarrow> batch_loop c w tickers 0 [] = sequentially w tickers"
    by (simp add: batch_loop_all sequentially_promise_all)
  ultimately show ?thesis
    using c CONCURRENCY_to_int[of limit] by blast
qed

theorem batch_loop_is_sequential_witness:
  "(0::nat) < 2 \<and>
   batch_loop 2 (worker one_failing ''hour'') [''AAPL'', ''MSFT'', ''BRK.B''] 0 []
     = Some [\<lparr>ticker = ''AAPL'', price = Some (Fin 110), changePercent = Some (Fin 10)\<rparr>,
             \<lparr>ticker = ''MSFT'', price = None, changePercent = None\<rparr>,
             \<lparr>ticker = ''BRK.B'', price = Some (Fin 110), changePercent = Some (Fin 10)\<rparr>] \<and>
   length [''AAPL'', ''MSFT'', ''BRK.B''] = 3"
  using batch_loop_is_sequential[of "Some ''2''" 2 "worker one_failing ''hour''" "[''AAPL'', ''MSFT'', ''BRK.B'']"]
  by (simp add: worker_hour_ok worker_hour_failing)

lemma fetchEodHistory_body_rejects:
  "get JNull = Inr (Response 200 (Inl e)) \<Longrightarrow> fetchEodHistory get need = Some (Inl e)"
  by (simp add: fetchEodHistory_def fetchEodHistory_loop.simps ok_def)

lemma eod_failing:
  "eodChangeVsLatest15m one_failing ''MSFT'' (Sessions 1) = Some (Inl (JsError ''Unexpected token <''))"
  by (simp add: eodChangeVsLatest15m_def fetchEodHistory_body_rejects one_failing_def)

lemma LIMIT_None: "LIMIT None = Fin 10"
  by (simp add: LIMIT_def parseInt_def js_max_def js_min_def)

text \<open>
  C5.  A worker whose computation throws returns \<^verbatim>\<open>{ ticker, price: null, changePercent: null }\<close>.
  Once the ticker list is there, the reply is never a 500; every reply holds, for each
  ticker and at its position, what the worker returned for that ticker alone, whatever
  the other tickers did and whatever fields are \<^verbatim>\<open>null\<close>; and there is a reply as soon as
  every worker settles.
\<close>

theorem failing_ticker_keeps_its_place:
 "(latest15mClose (intervals_of up t) = Inl e \<longrightarrow>
     worker up ''hour'' t = Some \<lparr>ticker = t, price = None, changePercent = None\<rparr>) \<and>
  (r \<noteq> ''hour'' \<and>
   eodChangeVsLatest15m up t (case sessionsMap r of Some v \<Rightarrow> v | None \<Rightarrow> Sessions 1) = Some (Inl e) \<longrightarrow>
     worker up r t = Some \<lparr>ticker = t, price = None, changePercent = None\<rparr>) \<and>
  (apiKey req \<noteq> None \<and> apiKey req \<noteq> Some [] \<and>
   getTopTickers (listing up) (to_int (LIMIT (limit_param req))) = Inr tickers \<longrightarrow>
     handler req up \<noteq> Some (Error500 msg) \<and>
     (handler req up = Some (Json200 out) \<longrightarrow>
        length out = length tickers \<and>
        (\<forall>i<length tickers. worker up (range_of (range_param req)) (tickers ! i) = Some (out ! i))) \<and>
     ((\<forall>t\<in>set tickers. worker up (range_of (range_param req)) t \<noteq> None) \<longrightarrow>
        handler req up = Some (Json200 (map (\<lambda>t. the (worker up (range_of (range_param req)) t)) tickers))))"
proof -
  have 1: "latest15mClose (intervals_of up t) = Inl e \<longrightarrow>
     worker up ''hour'' t = Some \<lparr>ticker = t, price = None, changePercent = None\<rparr>"
    by (simp add: worker_def)
  have 2: "r \<noteq> ''hour'' \<and>
   eodChangeVsLatest15m up t (case sessionsMap r of Some v \<Rightarrow> v | None \<Rightarrow> Sessions 1) = Some (Inl e) \<longrightarrow>
     worker up r t = Some \<lparr>ticker = t, price = None, changePercent = None\<rparr>"
    by (simp add: worker_def Let_def)
  have 3: "handler req up \<noteq> Some (Error500 msg) \<and>
     (handler req up = Some (Json200 out) \<longrightarrow>
        length out = length tickers \<and>
        (\<forall>i<length tickers. worker up (range_of (range_param req)) (tickers ! i) = Some (out ! i))) \<and>
     ((\<forall>t\<in>set tickers. worker up (range_of (range_param req)) t \<noteq> None) \<longrightarrow>
        handler req up = Some (Json200 (map (\<lambda>t. the (worker up (range_of (range_param req)) t)) tickers)))"
    if key: "apiKey req \<noteq> None" "apiKey req \<noteq> Some []"
      and tk: "getTopTickers (listing up) (to_int (LIMIT (limit_param req))) = Inr tickers"
  proof -
    define w where "w = worker up (range_of (range_param req))"
    have h: "handler req up = map_option Json200 (promise_all w tickers)"
      unfolding w_def by (rule handler_with_tickers[OF key tk])
    have a: "handler req up \<noteq> Some (Error500 msg)" unfolding h by auto
    have b: "length out = length tickers \<and> (\<forall>i<length tickers. w (tickers ! i) = Some (out ! i))"
      if "handler req up = Some (Json200 out)"
    proof -
      have "promise_all w tickers = Some out" using that unfolding h by auto
      then have m: "map w tickers = map Some out" by (simp add: promise_all_Some)
      then have l: "length out = length tickers" by (metis length_map)
      then show ?thesis using m by (metis nth_map)
    qed
    have c: "handler req up = Some (Json200 (map (\<lambda>t. the (w t)) tickers))"
      if "\<forall>t\<in>set tickers. w t \<noteq> None"
    proof -
      have "map w tickers = map Some (map (\<lambda>t. the (w t)) tickers)" using that by auto
      then have "promise_all w tickers = Some (map (\<lambda>t. the (w t)) tickers)"
        by (simp only: promise_all_Some)
      then show ?thesis unfolding h by simp
    qed
    show ?thesis using a b c unfolding w_def by blast
  qed
  show ?thesis using 1 2 3 by blast
qed

theorem failing_ticker_keeps_its_place_witness:
  "latest15mClose (intervals_of one_failing ''MSFT'') = Inl (JsError ''fetch failed'') \<and>
   worker one_failing ''hour'' ''MSFT'' = Some \<lparr>ticker = ''MSFT'', price = None, changePercent = None\<rparr> \<and>
   eodChangeVsLatest15m one_failing ''MSFT'' (Sessions 1) = Some (Inl (JsError ''Unexpected token <'')) \<and>
   worker one_failing ''day'' ''MSFT'' = Some \<lparr>ticker = ''MSFT'', price = None, changePercent = None\<rparr> \<and>
   getTopTickers (listing one_failing) (to_int (LIMIT (limit_param hour_request))) = Inr [''AAPL'', ''MSFT'', ''BRK.B''] \<and>
   handler hour_request one_failing =
     Some (Json200 [\<lparr>ticker = ''AAPL'', price = Some (Fin 110), changePercent = Some (Fin 10)\<rparr>,
             \<lparr>ticker = ''MSFT'', price = None, changePercent = None\<rparr>,
             \<lparr>ticker = ''BRK.B'', price = Some (Fin 110), changePercent = Some (Fin 10)\<rparr>])"
proof -
  have a: "latest15mClose (intervals_of one_failing ''MSFT'') = Inl (JsError ''fetch failed'')"
    by (simp add: one_failing_def latest15mClose_def)
  have b: "sessionsMap ''day'' = Some (Sessions 1)" by (simp add: sessionsMap_def)
  have t: "getTopTickers (listing one_failing) (to_int (LIMIT (limit_param hour_request)))
             = Inr [''AAPL'', ''MSFT'', ''BRK.B'']"
    by (simp add: hour_request_def LIMIT_None one_failing_def tickers_listing)
  have k: "apiKey hour_request \<noteq> None" "apiKey hour_request \<noteq> Some []"
    by (simp_all add: hour_request_def)
  have r: "range_of (range_param hour_request) = ''hour''"
    by (simp add: hour_request_def range_of_def lower_char_def)
  have w: "\<forall>t\<in>set [''AAPL'', ''MSFT'', ''BRK.B'']. worker one_failing (range_of (range_param hour_request)) t \<noteq> None"
    by (simp add: r worker_hour_ok worker_hour_failing)
  show ?thesis
    using failing_ticker_keeps_its_place[of one_failing "''MSFT''" "JsError ''fetch failed''" "''hour''" hour_request "[''AAPL'', ''MSFT'', ''BRK.B'']"]
      failing_ticker_keeps_its_place[of one_failing "''MSFT''" "JsError ''Unexpected token <''" "''day''" hour_request "[''AAPL'', ''MSFT'', ''BRK.B'']"]
      a b t k w eod_failing
    by (simp add: r worker_hour_ok worker_hour_failing)
qed

section \<open>The limit of a request\<close>

lemma parseInt_2: "parseInt (Some ''2'') = Fin 2"
  using fl_int[of 2]
  by (simp add: parseInt_def space_length_def is_digit_def digits_value_def digit_value_def)

lemma parseInt_100: "parseInt (Some ''100'') = Fin 100"
  using fl_int[of 100]
  by (simp add: parseInt_def space_length_def is_digit_def digits_value_def digit_value_def)

text \<open>The reply is cut to the limit, whatever the length of the array it is cut from.\<close>

lemma slice0_take: "0 \<le> n \<Longrightarrow> slice0 xs n = take (nat n) xs \<and> int (length (slice0 xs n)) \<le> n"
  by (auto simp: slice0_def)

lemma handler_length: "handler req up = Some (Json200 out) \<Longrightarrow> int (length out) \<le> to_int (LIMIT (limit_param req))"
  using LIMIT_to_int[of "limit_param req"]
  by (auto simp: handler_def Let_def slice0_def split: if_splits sum.splits option.splits)

lemma handler_limit_only:
  "LIMIT (limit_param req) = LIMIT (limit_param req') \<Longrightarrow> apiKey req = apiKey req' \<Longrightarrow>
   range_param req = range_param req' \<Longrightarrow> handler req up = handler req' up"
  by (simp add: handler_def CONCURRENCY_def)

text \<open>
  A limit that is absent or a string: when it parses to a finite number it is clamped to
  the range from 1 to 100 (0 gives 1, 1000 gives 100), otherwise it gives 10.  The limit
  is always an integer from 1 to 100, the reply depends on the parameter only through
  it, and a successful reply has at most that many items.
\<close>

lemma limit_of_string_is_clamped:
 "(parseInt v = Fin q \<longrightarrow> LIMIT v = Fin (max 1 (min 100 q))) \<and>
  (\<not> isFinite (parseInt v) \<longrightarrow> LIMIT v = Fin 10) \<and>
  parseInt None = NaN \<and> parseInt (Some ''abc'') = NaN \<and>
  LIMIT (Some ''0'') = Fin 1 \<and> LIMIT (Some ''1000'') = Fin 100 \<and>
  1 \<le> to_int (LIMIT v) \<and> to_int (LIMIT v) \<le> 100 \<and> LIMIT v = Fin (of_int (to_int (LIMIT v))) \<and>
  (LIMIT (limit_param req) = LIMIT (limit_param req') \<and> apiKey req = apiKey req' \<and>
     range_param req = range_param req' \<longrightarrow> handler req up = handler req' up) \<and>
  (handler req up = Some (Json200 out) \<longrightarrow> int (length out) \<le> to_int (LIMIT (limit_param req)))"
proof -
  have 1: "parseInt v = Fin q \<longrightarrow> LIMIT v = Fin (max 1 (min 100 q))"
    by (simp add: LIMIT_def clamp_Fin)
  have 2: "\<not> isFinite (parseInt v) \<longrightarrow> LIMIT v = Fin 10"
    by (simp add: LIMIT_def js_max_def js_min_def)
  have 3: "parseInt None = NaN" by (simp add: parseInt_def)
  have 4: "LIMIT (Some ''0'') = Fin 1" "LIMIT (Some ''1000'') = Fin 100"
    by (simp_all add: LIMIT_def parseInt_0 parseInt_1000 js_max_def js_min_def)
  show ?thesis
    using 1 2 3 4 parseInt_abc LIMIT_to_int[of v] handler_length[of req up out]
      handler_limit_only[of req req' up]
    by blast
qed

lemma tickers_listing2:
  "getTopTickers (Inr (Response 200 (Inr listing_html))) 2 = Inr [''AAPL'', ''MSFT'']"
  by (simp add: getTopTickers_def ok_def matches_listing Let_def slice0_def)

lemma LIMIT_2: "LIMIT (Some ''2'') = Fin 2"
  by (simp add: LIMIT_def parseInt_2 js_max_def js_min_def)

lemma handler_limit_2:
  "handler (limit_request ''2'') one_failing =
     Some (Json200 [\<lparr>ticker = ''AAPL'', price = Some (Fin 110), changePercent = Some (Fin 10)\<rparr>,
             \<lparr>ticker = ''MSFT'', price = None, changePercent = None\<rparr>])"
proof -
  have t: "getTopTickers (listing one_failing) (to_int (LIMIT (limit_param (limit_request ''2''))))
             = Inr [''AAPL'', ''MSFT'']"
    by (simp add: limit_request_def LIMIT_2 one_failing_def tickers_listing2)
  have r: "range_of (range_param (limit_request ''2'')) = ''hour''"
    by (simp add: limit_request_def range_of_def lower_char_def)
  show ?thesis
    using handler_with_tickers[OF _ _ t]
    by (simp add: r) (simp add: limit_request_def promise_all_def worker_hour_ok worker_hour_failing)
qed

lemma handler_hour_one_failing:
  "handler hour_request one_failing =
     Some (Json200 [\<lparr>ticker = ''AAPL'', price = Some (Fin 110), changePercent = Some (Fin 10)\<rparr>,
             \<lparr>ticker = ''MSFT'', price = None, changePercent = None\<rparr>,
             \<lparr>ticker = ''BRK.B'', price = Some (Fin 110), changePercent = Some (Fin 10)\<rparr>])"
proof -
  have t: "getTopTickers (listing one_failing) (to_int (LIMIT (limit_param hour_request)))
             = Inr [''AAPL'', ''MSFT'', ''BRK.B'']"
    by (simp add: hour_request_def LIMIT_None one_failing_def tickers_listing)
  have r: "range_of (range_param hour_request) = ''hour''"
    by (simp add: hour_request_def range_of_def lower_char_def)
  show ?thesis
    using handler_with_tickers[OF _ _ t]
    by (simp add: r) (simp add: hour_request_def promise_all_def worker_hour_ok worker_hour_failing)
qed

lemma parseInt_object: "parseInt (Some ''[object Object]'') = NaN"
  by (simp add: parseInt_def space_length_def is_digit_def)

lemma parseInt_2_7: "parseInt (Some ''2,7'') = Fin 2"
  using fl_int[of 2]
  by (simp add: parseInt_def space_length_def is_digit_def digits_value_def digit_value_def)

lemma LIMIT_defaults:
  "LIMIT (Some ''[object Object]'') = Fin 10" "LIMIT (Some ''abc'') = Fin 10"
  "LIMIT (Some ''2,7'') = Fin 2"
  by (simp_all add: LIMIT_def parseInt_object parseInt_abc parseInt_2_7 js_max_def js_min_def)

lemma handler_limit_default:
  "LIMIT l = Fin 10 \<Longrightarrow>
   handler \<lparr>apiKey = Some ''key'', range_param = Some ''hour'', limit_param = l\<rparr> one_failing
     = handler hour_request one_failing"
  by (rule handler_limit_only) (simp_all add: hour_request_def LIMIT_None)

lemma handler_limit_two:
  "LIMIT l = Fin 2 \<Longrightarrow>
   handler \<lparr>apiKey = Some ''key'', range_param = Some ''hour'', limit_param = l\<rparr> one_failing
     = handler (limit_request ''2'') one_failing"
  by (rule handler_limit_only) (simp_all add: limit_request_def LIMIT_2)

text \<open>
  A limit of any kind that converts to a string is clamped or defaulted as a string is.
\<close>

lemma limit_text_is_clamped:
  "limit_text q = Inr l \<Longrightarrow>
     1 \<le> to_int (LIMIT l) \<and> to_int (LIMIT l) \<le> 100 \<and> LIMIT l = Fin (of_int (to_int (LIMIT l)))"
  by (rule LIMIT_to_int)

text \<open>
  C7, as stated: every limit is clamped or defaulted, and none is rejected.  The request
  \<^verbatim>\<open>?range=hour&limit[toString]=1\<close> has for limit an object with an own property
  \<^verbatim>\<open>toString\<close>: \<^verbatim>\<open>parseInt\<close> throws before the \<^verbatim>\<open>try\<close> statement and the request gets no
  reply, where an object without that property, a text without digits and an absent limit
  give the default of 10 (all three tickers of the page), and an array gives the limit
  that its text parses to.
\<close>

theorem limit_object_rejects:
  "api_sp500 (query_request (Some (QStr ''hour'')) (Some (QObj [(''toString'', QStr ''1'')]))) one_failing
     = Some (Rejects (JsError ''Cannot convert object to primitive value'')) \<and>
   api_sp500 (query_request (Some (QStr ''hour'')) (Some (QObj [(''a'', QStr ''1'')]))) one_failing
     = api_sp500 (query_request (Some (QStr ''hour'')) None) one_failing \<and>
   api_sp500 (query_request (Some (QStr ''hour'')) (Some (QStr ''abc''))) one_failing
     = api_sp500 (query_request (Some (QStr ''hour'')) None) one_failing \<and>
   api_sp500 (query_request (Some (QStr ''hour'')) None) one_failing
     = Some (Replies (Json200
         [\<lparr>ticker = ''AAPL'', price = Some (Fin 110), changePercent = Some (Fin 10)\<rparr>,
          \<lparr>ticker = ''MSFT'', price = None, changePercent = None\<rparr>,
          \<lparr>ticker = ''BRK.B'', price = Some (Fin 110), changePercent = Some (Fin 10)\<rparr>])) \<and>
   api_sp500 (query_request (Some (QStr ''hour'')) (Some (QArr [QStr ''2'', QStr ''7'']))) one_failing
     = Some (Replies (Json200
         [\<lparr>ticker = ''AAPL'', price = Some (Fin 110), changePercent = Some (Fin 10)\<rparr>,
          \<lparr>ticker = ''MSFT'', price = None, changePercent = None\<rparr>]))"
  by (simp add: api_sp500_def query_request_def range_text_def limit_text_def
      handler_limit_default LIMIT_defaults LIMIT_None handler_limit_two
      handler_hour_one_failing handler_limit_2)

section \<open>Failures of the ticker list\<close>

lemma show_503: "show_nat 503 = ''503''"
  by (simp add: show_nat.simps)

text \<open>
  C9, as stated: \<^verbatim>\<open>getTopTickers\<close> throws exactly when the fetch returns non-2xx or zero
  symbols are extracted.  When the fetch rejects, it throws with neither.
\<close>

theorem tickers_throw_on_rejected_fetch:
  "isl (getTopTickers (Inl (JsError ''fetch failed'')) 10) \<and>
   \<not> returns_non_2xx (Inl (JsError ''fetch failed'')) \<and>
   \<not> zero_symbols_extracted (Inl (JsError ''fetch failed'')) 10"
  by (simp add: getTopTickers_def returns_non_2xx_def zero_symbols_extracted_def)

lemma handler_tickers_error:
  "apiKey req \<noteq> None \<Longrightarrow> apiKey req \<noteq> Some [] \<Longrightarrow>
   getTopTickers (listing up) (to_int (LIMIT (limit_param req))) = Inl e \<Longrightarrow>
   handler req up = Some (Error500 (if message e = [] then ''Failed to build S&P500 data'' else message e))"
  by (auto simp: handler_def Let_def)

text \<open>
  C9, amended.  \<^verbatim>\<open>getTopTickers\<close> throws exactly when the fetch of the listing page or
  the reading of its body rejects (that failure is passed on), when the response is not
  2xx, or when zero symbols are extracted, which for a positive limit means that the page
  has no match.  It never returns an empty list.  When it throws, the reply is a 500 whose
  error is the message of the failure, or a fixed text for a failure without message.
\<close>

theorem tickers_throw_exactly:
  "(isl (getTopTickers f limit) \<longleftrightarrow>
      fetch_rejects f \<or> returns_non_2xx f \<or> zero_symbols_extracted f limit) \<and>
   (returns_non_2xx f \<longrightarrow> (\<exists>resp. f = Inr resp \<and>
       getTopTickers f limit = Inl (JsError (''SlickCharts HTTP '' @ show_nat (status resp))))) \<and>
   (zero_symbols_extracted f limit \<longrightarrow>
       getTopTickers f limit = Inl (JsError ''No S&P500 tickers scraped'')) \<and>
   (0 < limit \<longrightarrow>
       zero_symbols_extracted (Inr (Response s (Inr html))) limit
         = (ok (Response s (Inr html) :: page_body response) \<and> matches_from 0 html = [])) \<and>
   getTopTickers (Inl e) limit = Inl e \<and>
   getTopTickers f limit \<noteq> Inr [] \<and>
   (apiKey req \<noteq> None \<and> apiKey req \<noteq> Some [] \<and>
    getTopTickers (listing up) (to_int (LIMIT (limit_param req))) = Inl e \<longrightarrow>
      handler req up =
        Some (Error500 (if message e = [] then ''Failed to build S&P500 data'' else message e)))"
proof -
  have 1: "isl (getTopTickers f limit) \<longleftrightarrow>
      fetch_rejects f \<or> returns_non_2xx f \<or> zero_symbols_extracted f limit"
    by (cases f)
      (auto simp: getTopTickers_def fetch_rejects_def returns_non_2xx_def
        zero_symbols_extracted_def Let_def split: sum.splits)
  have 2: "returns_non_2xx f \<longrightarrow> (\<exists>resp. f = Inr resp \<and>
       getTopTickers f limit = Inl (JsError (''SlickCharts HTTP '' @ show_nat (status resp))))"
    by (cases f) (auto simp: getTopTickers_def returns_non_2xx_def)
  have 3: "zero_symbols_extracted f limit \<longrightarrow>
       getTopTickers f limit = Inl (JsError ''No S&P500 tickers scraped'')"
    by (cases f) (auto simp: getTopTickers_def zero_symbols_extracted_def split: sum.splits)
  have 4: "0 < limit \<longrightarrow>
       zero_symbols_extracted (Inr (Response s (Inr html))) limit
         = (ok (Response s (Inr html) :: page_body response) \<and> matches_from 0 html = [])"
    by (auto simp: zero_symbols_extracted_def collect_empty_iff)
  have 5: "getTopTickers (Inl e) limit = Inl e" by (simp add: getTopTickers_def)
  have 6: "getTopTickers f limit \<noteq> Inr []" using getTopTickers_Inr[of f limit "[]"] by auto
  show ?thesis using 1 2 3 4 5 6 handler_tickers_error[of req up e] by blast
qed

theorem tickers_throw_exactly_witness:
  "returns_non_2xx (listing unavailable) \<and>
   getTopTickers (listing unavailable) 10 = Inl (JsError ''SlickCharts HTTP 503'') \<and>
   zero_symbols_extracted (Inr (Response 200 (Inr ''<html></html>''))) 10 \<and>
   getTopTickers (Inr (Response 200 (Inr ''<html></html>''))) 10
     = Inl (JsError ''No S&P500 tickers scraped'') \<and>
   handler hour_request unavailable = Some (Error500 ''SlickCharts HTTP 503'')"
proof -
  have a: "returns_non_2xx (listing unavailable)"
    by (simp add: unavailable_def returns_non_2xx_def ok_def)
  have b: "zero_symbols_extracted (Inr (Response 200 (Inr ''<html></html>''))) 10"
    by (simp add: zero_symbols_extracted_def ok_def match_symbol_def)
  have k: "apiKey hour_request \<noteq> None" "apiKey hour_request \<noteq> Some []"
    "to_int (LIMIT (limit_param hour_request)) = 10"
    by (simp_all add: hour_request_def LIMIT_None)
  show ?thesis
    using tickers_throw_exactly[of "listing unavailable" 10 200 "''<html></html>''" "JsError ''SlickCharts HTTP 503''" hour_request unavailable]
      tickers_throw_exactly[of "Inr (Response 200 (Inr ''<html></html>''))" 10 200 "''<html></html>''" "JsError ''x''" hour_request unavailable]
      a b k
    by (auto simp: unavailable_def show_503)
qed

section \<open>The range of a request\<close>

lemma range_of_examples:
  "range_of (Some ''WEEK'') = ''week''" "range_of (Some ''Hour'') = ''hour''"
  "range_of None = ''day''" "range_of (Some '''') = ''day''"  "range_of (Some ''foo'') = ''foo''"
  by (simp_all add: range_of_def lower_char_def)

lemma lower_char_idem: "lower_char (lower_char c) = lower_char c"
  unfolding lower_char_def by (auto split: option.splits)

lemma lower_char_kelvin:
  "lower_char c = CHR 0xE2 \<longleftrightarrow> c = CHR 0xE2"
  "lower_char c = CHR 0x84 \<longleftrightarrow> c = CHR 0x84"
  "lower_char c = CHR 0xAA \<longleftrightarrow> c = CHR 0xAA"
  unfolding lower_char_def by (auto split: option.splits if_splits)

lemma toLowerCase_map_lower: "toLowerCase (map lower_char r) = toLowerCase r"
  by (induction r rule: toLowerCase.induct) (auto simp: lower_char_kelvin lower_char_idem)

lemma same_letters_toLowerCase: "same_letters r r' \<Longrightarrow> toLowerCase r = toLowerCase r'"
  unfolding same_letters_def by (metis toLowerCase_map_lower)

lemma handler_range_only:
  "range_of (range_param req) = range_of (range_param req') \<Longrightarrow> apiKey req = apiKey req' \<Longrightarrow>
   limit_param req = limit_param req' \<Longrightarrow> handler req up = handler req' up"
  by (simp add: handler_def)

text \<open>
  A range that is a string.  Parameters that differ only in the case of their letters
  give the same lowered range, and the reply depends on the parameter only through the
  lowered range.  WEEK takes the session path with 5 sessions and Hour the intraday
  path.  The lookup falls back to its default only for a lowered range other than the
  four session ranges, and a range for which it does behaves as day.
\<close>

lemma range_of_string_is_lowered:
 "(same_letters r r' \<longrightarrow> toLowerCase r = toLowerCase r') \<and>
  (range_of (range_param req) = range_of (range_param req') \<and> apiKey req = apiKey req' \<and>
     limit_param req = limit_param req' \<longrightarrow> handler req up = handler req' up) \<and>
  (v \<noteq> [] \<longrightarrow> range_of (Some v) = toLowerCase v) \<and>
  range_of (Some ''WEEK'') = ''week'' \<and> range_of (Some ''Hour'') = ''hour'' \<and>
  worker up (range_of (Some ''WEEK'')) t =
    (case eodChangeVsLatest15m up t (Sessions 5) of
       None \<Rightarrow> None
     | Some (Inl e) \<Rightarrow> Some \<lparr>ticker = t, price = None, changePercent = None\<rparr>
     | Some (Inr out) \<Rightarrow> Some \<lparr>ticker = t, price = now out, changePercent = changePct out\<rparr>) \<and>
  worker up (range_of (Some ''Hour'')) t =
    (case latest15mClose (intervals_of up t) of
       Inl e \<Rightarrow> Some \<lparr>ticker = t, price = None, changePercent = None\<rparr>
     | Inr latest \<Rightarrow>
         Some \<lparr>ticker = t, price = latest_price latest,
               changePercent = changePct (hourlyChangeFromIntervals (latest_intervals latest))\<rparr>) \<and>
  (sessionsMap x = None \<longrightarrow> x \<noteq> ''day'' \<and> x \<noteq> ''week'' \<and> x \<noteq> ''month'' \<and> x \<noteq> ''year'') \<and>
  (x \<noteq> ''hour'' \<and> sessionsMap x = None \<longrightarrow> worker up x t = worker up ''day'' t) \<and>
  sessionsMap ''day'' = Some (Sessions 1) \<and> sessionsMap ''week'' = Some (Sessions 5) \<and>
  sessionsMap ''month'' = Some (Sessions 21) \<and> sessionsMap ''year'' = Some (Sessions 252)"
proof -
  have d: "x \<noteq> ''hour'' \<and> sessionsMap x = None \<longrightarrow> worker up x t = worker up ''day'' t"
    by (simp add: worker_def sessionsMap_def)
  have w: "worker up ''week'' t =
    (case eodChangeVsLatest15m up t (Sessions 5) of
       None \<Rightarrow> None
     | Some (Inl e) \<Rightarrow> Some \<lparr>ticker = t, price = None, changePercent = None\<rparr>
     | Some (Inr out) \<Rightarrow> Some \<lparr>ticker = t, price = now out, changePercent = changePct out\<rparr>)"
    by (simp add: worker_def sessionsMap_def)
  have h: "worker up ''hour'' t =
    (case latest15mClose (intervals_of up t) of
       Inl e \<Rightarrow> Some \<lparr>ticker = t, price = None, changePercent = None\<rparr>
     | Inr latest \<Rightarrow>
         Some \<lparr>ticker = t, price = latest_price latest,
               changePercent = changePct (hourlyChangeFromIntervals (latest_intervals latest))\<rparr>)"
    by (cases "latest15mClose (intervals_of up t)") (simp_all add: worker_def Let_def)
  have s: "sessionsMap x = None \<longrightarrow> x \<noteq> ''day'' \<and> x \<noteq> ''week'' \<and> x \<noteq> ''month'' \<and> x \<noteq> ''year''"
    "sessionsMap ''day'' = Some (Sessions 1)" "sessionsMap ''week'' = Some (Sessions 5)"
    "sessionsMap ''month'' = Some (Sessions 21)" "sessionsMap ''year'' = Some (Sessions 252)"
    by (auto simp: sessionsMap_def)
  have v: "v \<noteq> [] \<longrightarrow> range_of (Some v) = toLowerCase v" by (simp add: range_of_def)
  show ?thesis
    using same_letters_toLowerCase[of r r'] handler_range_only[of req req' up] w h s v d
    by (simp add: range_of_examples)
qed

section \<open>The session path\<close>

lemma pct_110_55: "js_mul (js_div (js_sub (Fin 110) (Fin 55)) (Fin 55)) (Fin 100) = Fin 100"
  using fl_int[of 55] fl_int[of 1] fl_int[of 100] by (simp add: js_sub_def)

lemma history_day: "fetchEodHistory (prices_of two_pages t) (Sessions 1) = Some (Inr [bar 55, bar 100, bar 90])"
  by (simp add: fetchEodHistory_def fetchEodHistory_loop.simps two_pages_def prices_page_def ok_def
      page_rows_def page_next_def)

lemma history_inherited: "fetchEodHistory (prices_of two_pages t) Inherited = Some (Inr [bar 55])"
  by (simp add: fetchEodHistory_def fetchEodHistory_loop.simps two_pages_def prices_page_def ok_def
      page_rows_def page_next_def)

lemma latest_six: "latest15mClose (bars_response six_bars) = Inr \<lparr>latest_price = Some (Fin 110), latest_intervals = six_bars\<rparr>"
  by (simp add: latest15mClose_bars) (simp add: six_bars_def close_number_bar)

text \<open>
  The range \<^verbatim>\<open>constructor\<close>, which is unrecognized: the lookup finds the inherited
  property, one page is fetched and the base is its oldest row (55, a change of 100),
  where the ranges \<^verbatim>\<open>day\<close> and \<^verbatim>\<open>foo\<close> fetch the second page and take the row at index
  1 (100, a change of 10).
\<close>

lemma inherited_range_is_not_day:
  "worker two_pages (range_of (Some ''constructor'')) ''AAPL''
     = Some \<lparr>ticker = ''AAPL'', price = Some (Fin 110), changePercent = Some (Fin 100)\<rparr> \<and>
   worker two_pages (range_of (Some ''day'')) ''AAPL''
     = Some \<lparr>ticker = ''AAPL'', price = Some (Fin 110), changePercent = Some (Fin 10)\<rparr> \<and>
   worker two_pages (range_of (Some ''foo'')) ''AAPL''
     = Some \<lparr>ticker = ''AAPL'', price = Some (Fin 110), changePercent = Some (Fin 10)\<rparr>"
proof -
  have r: "range_of (Some ''constructor'') = ''constructor''" "range_of (Some ''day'') = ''day''"
    "range_of (Some ''foo'') = ''foo''"
    by (simp_all add: range_of_def lower_char_def)
  have s: "sessionsMap ''constructor'' = Some Inherited" "sessionsMap ''day'' = Some (Sessions 1)"
    "sessionsMap ''foo'' = None"
    by (simp_all add: sessionsMap_def)
  have i: "intervals_of two_pages ''AAPL'' = bars_response six_bars" by (simp add: two_pages_def)
  have a: "eodChangeVsLatest15m two_pages ''AAPL'' Inherited
             = Some (Inr \<lparr>base = Some (Fin 55), changePct = Some (Fin 100), now = Some (Fin 110)\<rparr>)"
    by (simp add: eodChangeVsLatest15m_def history_inherited i latest_six eodChange_def
        truthy_bar close_number_bar pct_110_55)
  have b: "eodChangeVsLatest15m two_pages ''AAPL'' (Sessions 1)
             = Some (Inr \<lparr>base = Some (Fin 100), changePct = Some (Fin 10), now = Some (Fin 110)\<rparr>)"
    using history_day[of "''AAPL''"]
    by (simp add: eodChangeVsLatest15m_def i latest_six eodChange_def
        truthy_bar close_number_bar pct_110_100)
  show ?thesis using b by (simp add: r worker_def s a)
qed












lemma tickers_listing1:
  "getTopTickers (Inr (Response 200 (Inr listing_html))) 1 = Inr [''AAPL'']"
  by (simp add: getTopTickers_def ok_def matches_listing Let_def slice0_def)

lemma parseInt_one: "parseInt (Some ''1'') = Fin 1"
  using fl_int[of 1]
  by (simp add: parseInt_def space_length_def is_digit_def digits_value_def digit_value_def)

lemma LIMIT_1: "LIMIT (Some ''1'') = Fin 1"
  by (simp add: LIMIT_def parseInt_one js_max_def js_min_def)

lemma handler_two_pages:
  assumes "worker two_pages (range_of (Some r)) ''AAPL'' = Some m"
  shows "handler \<lparr>apiKey = Some ''key'', range_param = Some r, limit_param = Some ''1''\<rparr> two_pages
           = Some (Json200 [m])"
proof -
  have t: "getTopTickers (listing two_pages)
             (to_int (LIMIT (limit_param \<lparr>apiKey = Some ''key'', range_param = Some r, limit_param = Some ''1''\<rparr>)))
             = Inr [''AAPL'']"
    by (simp add: LIMIT_1 two_pages_def tickers_listing1)
  show ?thesis
    using handler_with_tickers[OF _ _ t] assms by (simp add: promise_all_def)
qed

lemma range_of_upper: "range_of (Some ''CONSTRUCTOR'') = range_of (Some ''constructor'')"
  by (simp add: range_of_def lower_char_def)

lemma worker_proto:
  "worker up (range_of (Some ''__proto__'')) t = worker up (range_of (Some ''constructor'')) t"
  by (simp add: range_of_def lower_char_def worker_def sessionsMap_def)

text \<open>
  C10, as stated: the range is lowered before it is compared, and a value that is
  unrecognized after lowering behaves as day.  The requests
  \<^verbatim>\<open>?range=constructor&limit=1\<close> and \<^verbatim>\<open>?range=CONSTRUCTOR&limit=1\<close> are lowered to the
  same range, which is none of hour, day, week, month and year, and their reply, as that
  for \<^verbatim>\<open>range=__proto__\<close>, has a change of 100 (one page, base 55) where the replies for
  \<^verbatim>\<open>range=day\<close> and \<^verbatim>\<open>range=foo\<close> have a change of 10 (two pages, base 100).  A range that is an array (\<^verbatim>\<open>?range=day&range=week\<close>) is not lowered: the
  call throws before the \<^verbatim>\<open>try\<close> statement and the request gets no reply.
\<close>

theorem unrecognized_range_is_not_day:
  "api_sp500 (query_request (Some (QStr ''constructor'')) (Some (QStr ''1''))) two_pages
     = Some (Replies (Json200
         [\<lparr>ticker = ''AAPL'', price = Some (Fin 110), changePercent = Some (Fin 100)\<rparr>])) \<and>
   api_sp500 (query_request (Some (QStr ''CONSTRUCTOR'')) (Some (QStr ''1''))) two_pages
     = api_sp500 (query_request (Some (QStr ''constructor'')) (Some (QStr ''1''))) two_pages \<and>
   api_sp500 (query_request (Some (QStr ''__proto__'')) (Some (QStr ''1''))) two_pages
     = api_sp500 (query_request (Some (QStr ''constructor'')) (Some (QStr ''1''))) two_pages \<and>
   api_sp500 (query_request (Some (QStr ''day'')) (Some (QStr ''1''))) two_pages
     = Some (Replies (Json200
         [\<lparr>ticker = ''AAPL'', price = Some (Fin 110), changePercent = Some (Fin 10)\<rparr>])) \<and>
   api_sp500 (query_request (Some (QStr ''foo'')) (Some (QStr ''1''))) two_pages
     = api_sp500 (query_request (Some (QStr ''day'')) (Some (QStr ''1''))) two_pages \<and>
   api_sp500 (query_request (Some (QArr [QStr ''day'', QStr ''week''])) (Some (QStr ''1''))) two_pages
     = Some (Rejects (JsError ''toLowerCase is not a function''))"
  using inherited_range_is_not_day
  by (simp add: api_sp500_def query_request_def range_text_def limit_text_def
      handler_two_pages range_of_upper worker_proto)






section \<open>Numbers that are not finite\<close>

lemma fl_overflow:
  assumes "2 powi 1024 \<le> x"
  shows "fl x = PInf"
proof -
  define e where "e = ilog2 x"
  have p: "(0::rat) < 2 powi 1024" by simp
  have x0: "x \<noteq> 0" "0 < x" using assms p by linarith+
  have b: "2 powi e \<le> x" "x < 2 powi (e + 1)"
    using ilog2_bounds[OF x0(1)] x0(2) by (simp_all add: e_def)
  have "(2::rat) powi 1024 < 2 powi (e + 1)" using assms b(2) by linarith
  then have e1024: "1024 \<le> e" using powi2_less_cancel[of 1024 "e + 1"] by simp
  define u :: rat where "u = 2 powi (e - 52)"
  have u0: "0 < u" by (simp add: u_def)
  have pe: "(2::rat) powi e = 2 ^ 52 * u"
    unfolding u_def using power_int_add[of "2::rat" 52 "e - 52"] by simp
  have "of_int (2 ^ 52) \<le> x / u" using b(1) u0 by (simp add: pe field_simps)
  then have "2 ^ 52 \<le> round_half_even (x / u)" by (rule round_half_even_ge)
  then have "(of_int (2 ^ 52) :: rat) \<le> of_int (round_half_even (x / u))" by (simp only: of_int_le_iff)
  then have "2 ^ 52 * u \<le> of_int (round_half_even (x / u)) * u" using u0 by simp
  then have r: "2 powi e \<le> of_int (round_half_even (x / u)) * u" by (simp add: pe)
  have "(2::rat) powi 1024 \<le> 2 powi e" using e1024 by (intro power_int_increasing) auto
  then have big: "2 powi 1024 \<le> of_int (round_half_even (x / u)) * u" using r by linarith
  have m: "max (ilog2 x) (- 1022) = e" using e1024 by (simp add: e_def)
  show ?thesis
    unfolding fl_def Let_def m using x0(1) big by (simp add: u_def)
qed

text \<open>Two finite closes whose change overflows.\<close>

lemma overflow_sub: "js_sub (Fin (2 ^ 1023)) (Fin (2 powi (- 1000))) = Fin (2 ^ 1023)"
  using fl_near[of 1022 "2 ^ 1023 - 2 powi (- 1000)" "2 ^ 53"]
  by (simp add: js_sub_def)

lemma overflow_div: "js_div (Fin (2 ^ 1023)) (Fin (2 powi (- 1000))) = PInf"
  using fl_overflow[of "2 ^ 1023 / 2 powi (- 1000)"] by simp

lemma pct_overflow:
  "js_mul (js_div (js_sub (Fin (2 ^ 1023)) (Fin (2 powi (- 1000)))) (Fin (2 powi (- 1000)))) (Fin 100) = PInf"
  by (simp only: overflow_sub overflow_div) (simp add: signed_inf_def)

















section \<open>The change of a metric\<close>

lemma eodChange_now: "now (eodChange hist x sb) = x"
  by (auto simp: eodChange_def Let_def split: option.splits)

lemma history_one_failing:
  "t \<noteq> ''MSFT'' \<Longrightarrow>
     fetchEodHistory (prices_of one_failing t) (Sessions 1) = Some (Inr [bar 105, bar 100])"
  by (simp add: fetchEodHistory_def fetchEodHistory_loop.simps one_failing_def prices_page_def
      ok_def page_rows_def page_next_def)

text \<open>
  C1.  On both paths the change is the specified formula of the two operands: the
  quotient times 100 when both are numbers and the base is not zero, \<^verbatim>\<open>null\<close> when the
  base is zero or an operand is missing or not a number; and that change is the
  \<^verbatim>\<open>changePercent\<close> of the metric.  With 110 against 100 the result is exactly 10.
\<close>

theorem percent_change_on_both_paths:
 "changePct (hourlyChangeFromIntervals arr) = percent_change (hour_now arr) (hour_base arr) \<and>
  changePct (eodChange hist now15 sessionsBack) = percent_change now15 (eod_base hist sessionsBack) \<and>
  (latest15mClose (intervals_of up t) = Inr l \<longrightarrow>
     worker up ''hour'' t =
       Some \<lparr>ticker = t, price = latest_price l,
             changePercent = percent_change (hour_now (latest_intervals l))
                                            (hour_base (latest_intervals l))\<rparr>) \<and>
  (r \<noteq> ''hour'' \<and>
   fetchEodHistory (prices_of up t) (case sessionsMap r of Some v \<Rightarrow> v | None \<Rightarrow> Sessions 1)
     = Some (Inr rows) \<and>
   latest15mClose (intervals_of up t) = Inr l \<longrightarrow>
     worker up r t =
       Some \<lparr>ticker = t, price = latest_price l,
             changePercent =
               percent_change (latest_price l)
                 (eod_base rows (case sessionsMap r of Some v \<Rightarrow> v | None \<Rightarrow> Sessions 1))\<rparr>) \<and>
  percent_change (Some (Fin 110)) (Some (Fin 100)) = Some (Fin 10) \<and>
  percent_change x (Some (Fin 0)) = None \<and> percent_change None y = None \<and>
  percent_change x None = None"
proof -
  have h: "latest15mClose (intervals_of up t) = Inr l \<longrightarrow>
     worker up ''hour'' t =
       Some \<lparr>ticker = t, price = latest_price l,
             changePercent = percent_change (hour_now (latest_intervals l))
                                            (hour_base (latest_intervals l))\<rparr>"
    by (simp add: worker_def Let_def hourly_pct)
  have s: "r \<noteq> ''hour'' \<and>
   fetchEodHistory (prices_of up t) (case sessionsMap r of Some v \<Rightarrow> v | None \<Rightarrow> Sessions 1)
     = Some (Inr rows) \<and>
   latest15mClose (intervals_of up t) = Inr l \<longrightarrow>
     worker up r t =
       Some \<lparr>ticker = t, price = latest_price l,
             changePercent =
               percent_change (latest_price l)
                 (eod_base rows (case sessionsMap r of Some v \<Rightarrow> v | None \<Rightarrow> Sessions 1))\<rparr>"
    by (simp add: worker_def Let_def eodChangeVsLatest15m_def eod_pct eodChange_now)
  have p: "percent_change (Some (Fin 110)) (Some (Fin 100)) = Some (Fin 10)"
    "percent_change x (Some (Fin 0)) = None" "percent_change None y = None"
    "percent_change x None = None"
    by (simp_all add: percent_change_def pct_110_100 split: option.splits)
  show ?thesis using h s p hourly_pct eod_pct by blast
qed

theorem percent_change_on_both_paths_witness:
  "latest15mClose (intervals_of one_failing ''AAPL'')
     = Inr \<lparr>latest_price = Some (Fin 110), latest_intervals = six_bars\<rparr> \<and>
   worker one_failing ''hour'' ''AAPL''
     = Some \<lparr>ticker = ''AAPL'', price = Some (Fin 110), changePercent = Some (Fin 10)\<rparr> \<and>
   fetchEodHistory (prices_of one_failing ''AAPL'') (Sessions 1) = Some (Inr [bar 105, bar 100]) \<and>
   worker one_failing ''day'' ''AAPL''
     = Some \<lparr>ticker = ''AAPL'', price = Some (Fin 110), changePercent = Some (Fin 10)\<rparr>"
proof -
  have i: "intervals_of one_failing ''AAPL'' = bars_response six_bars"
    by (simp add: one_failing_def)
  have hn: "hour_now six_bars = Some (Fin 110)" "hour_base six_bars = Some (Fin 100)"
    by (simp_all add: hour_now_def hour_base_def six_bars_def close_number_bar)
  have eb: "eod_base [bar 105, bar 100] (Sessions 1) = Some (Fin 100)"
    by (simp add: eod_base_def close_number_bar)
  have s: "sessionsMap ''day'' = Some (Sessions 1)" by (simp add: sessionsMap_def)
  have p: "percent_change (Some (Fin 110)) (Some (Fin 100)) = Some (Fin 10)"
    by (simp add: percent_change_def pct_110_100)
  show ?thesis
    using percent_change_on_both_paths[where up = one_failing and t = "''AAPL''" and r = "''day''"
        and l = "\<lparr>latest_price = Some (Fin 110), latest_intervals = six_bars\<rparr>"
        and rows = "[bar 105, bar 100]"]
      history_one_failing[of "''AAPL''"] latest_six eb
    by (simp add: i hn s p)
qed

end
